theory Spec2Isabelle
  imports Main "HOL-Library.Word"
begin

unbundle bit_operations_syntax

section \<open>Data model\<close>

text \<open>
  The development embeds \<^verbatim>\<open>cloudsmith/data_source_package.go\<close>: the helper
  \<^verbatim>\<open>checksumMismatchError\<close>, the fetcher \<^verbatim>\<open>downloadPackage\<close>, the digest engine
  \<^verbatim>\<open>calculateChecksums\<close> and the read function \<^verbatim>\<open>dataSourcePackageRead\<close> that
  drives them.  Go strings are byte strings and are modelled as \<open>string\<close>; a Go \<open>byte\<close>
  is an \<open>8 word\<close>.
\<close>

type_synonym byte = "8 word"

record Checksums =
  MD5 :: string
  SHA1 :: string
  SHA256 :: string
  SHA512 :: string

text \<open>
  Every \<^verbatim>\<open>return err\<close> of the source is a constructor, named after the call that
  produced the error.  \<open>HTTPStatusError url code\<close> stands for
  \<^verbatim>\<open>fmt.Errorf("failed to download file: %s, status code: %d", url, code)\<close> and
  \<open>MismatchError msg\<close> for \<^verbatim>\<open>errors.New(errMsg)\<close>.
\<close>

datatype error =
    ApiError string
  | RequestError string
  | UrlParseError string
  | TransportError string
  | HTTPStatusError string int
  | CreateError string
  | CopyError string
  | OpenError string
  | ReadError string
  | MismatchError string

text \<open>
  The package returned by the metadata lookup.  The four checksum fields and the CDN URL
  are optional in the API model; their getters return the empty string when the field is
  not populated.  The informational fields are kept as the values their getters return.
\<close>

record Package =
  CdnUrl :: "string option"
  Format :: string
  IsSyncAwaiting :: bool
  IsSyncCompleted :: bool
  IsSyncFailed :: bool
  IsSyncInFlight :: bool
  IsSyncInProgress :: bool
  Name :: string
  Slug :: string
  SlugPerm :: string
  Version :: string
  ChecksumMd5 :: "string option"
  ChecksumSha1 :: "string option"
  ChecksumSha256 :: "string option"
  ChecksumSha512 :: "string option"

definition orEmpty :: "string option \<Rightarrow> string" where
  "orEmpty x = (case x of None \<Rightarrow> [] | Some s \<Rightarrow> s)"

definition GetCdnUrl :: "Package \<Rightarrow> string" where
  "GetCdnUrl pkg = orEmpty (CdnUrl pkg)"

definition GetChecksumMd5 :: "Package \<Rightarrow> string" where
  "GetChecksumMd5 pkg = orEmpty (ChecksumMd5 pkg)"

definition GetChecksumSha1 :: "Package \<Rightarrow> string" where
  "GetChecksumSha1 pkg = orEmpty (ChecksumSha1 pkg)"

definition GetChecksumSha256 :: "Package \<Rightarrow> string" where
  "GetChecksumSha256 pkg = orEmpty (ChecksumSha256 pkg)"

definition GetChecksumSha512 :: "Package \<Rightarrow> string" where
  "GetChecksumSha512 pkg = orEmpty (ChecksumSha512 pkg)"

text \<open>The resource data \<open>d\<close>: the fields written by \<^verbatim>\<open>d.Set\<close> and the id.\<close>

datatype val = S string | B bool

record ResourceData =
  attrs :: "string \<rightharpoonup> val"
  Id :: string

definition Set :: "ResourceData \<Rightarrow> string \<Rightarrow> val \<Rightarrow> ResourceData" where
  "Set d k v = d\<lparr>attrs := (attrs d)(k \<mapsto> v)\<rparr>"

definition SetId :: "ResourceData \<Rightarrow> string \<Rightarrow> ResourceData" where
  "SetId d v = d\<lparr>Id := v\<rparr>"

text \<open>
  The values that \<^verbatim>\<open>requiredString\<close> and \<^verbatim>\<open>requiredBool\<close> read from the
  configuration at the head of \<^verbatim>\<open>dataSourcePackageRead\<close> are taken as a record.
  The source's \<^verbatim>\<open>identifier\<close> is the field \<open>package_identifier\<close>, the plain name
  being reserved in Isabelle.
\<close>

record config =
  namespace :: string
  repository :: string
  package_identifier :: string
  download :: bool
  download_dir :: string
  ignore_checksums :: bool

subsection \<open>HTTP, the file system and the standard library\<close>

text \<open>
  A request as \<^verbatim>\<open>client.Do\<close> receives it: the URL given to \<^verbatim>\<open>http.NewRequest\<close>,
  the value of the \<^verbatim>\<open>time\<close> query parameter that the cache-busting branch sets on
  \<^verbatim>\<open>req.URL\<close> (\<open>None\<close> when the URL is left as it is), and the Authorization header.
\<close>

record request =
  reqURL :: string
  timeParam :: "int option"
  authorization :: string

text \<open>
  What \<^verbatim>\<open>client.Do\<close> gives back: an error, or a response with its status code and
  body.  The flag says that \<^verbatim>\<open>io.Copy\<close> of the body to the output file reports an
  error after the given bytes were written (connection reset, disk full).
\<close>

datatype http_result =
    DoError string
  | Response int "byte list" bool

record providerConfig =
  APIKey :: string
  PackagesReadExecute :: "string \<Rightarrow> string \<Rightarrow> string \<Rightarrow> error + Package"
  HTTPClient :: "nat \<Rightarrow> request \<Rightarrow> http_result"

text \<open>
  The world outside the process.  \<open>HTTPClient pc n req\<close> above is the answer to \<open>req\<close>
  when \<open>n\<close> requests were issued before it, so a server may answer the same URL
  differently on a later attempt.  \<open>now\<close> is what \<^verbatim>\<open>time.Now().Unix()\<close> reads; the
  model does not advance it during a call.  \<open>files\<close> is the content of the file
  system; \<open>createFails\<close>, \<open>openFails\<close> and \<open>readFails\<close> say for which paths
  \<^verbatim>\<open>os.Create\<close>, \<^verbatim>\<open>os.Open\<close> and the reads of \<^verbatim>\<open>io.Copy\<close> report an error
  (\<^verbatim>\<open>os.Open\<close> also fails on a path that holds no file).  The last three fields are
  logs, oldest entry first: the requests handed to \<^verbatim>\<open>client.Do\<close>, the files opened
  for their digests, and the lines printed.
\<close>

record world =
  now :: int
  files :: "string \<rightharpoonup> byte list"
  createFails :: "string \<Rightarrow> bool"
  openFails :: "string \<Rightarrow> bool"
  readFails :: "string \<Rightarrow> bool"
  requests :: "request list"
  opened :: "string list"
  stdout :: "string list"

text \<open>
  A \<^verbatim>\<open>hash.Hash\<close> of the Go standard library: the fresh state, \<^verbatim>\<open>Write\<close> and
  \<^verbatim>\<open>Sum(nil)\<close>.  The hash functions themselves, \<^verbatim>\<open>url.Parse\<close>, \<^verbatim>\<open>path.Base\<close>
  and \<^verbatim>\<open>path.Join\<close> are not code of this repository and are parameters.
\<close>

record 's hasher =
  hNew :: 's
  hWrite :: "'s \<Rightarrow> byte list \<Rightarrow> 's"
  hSum :: "'s \<Rightarrow> byte list"

record 's stdlib =
  md5 :: "'s hasher"
  sha1 :: "'s hasher"
  sha256 :: "'s hasher"
  sha512 :: "'s hasher"
  url_Parse_ok :: "string \<Rightarrow> bool"
  path_Base :: "string \<Rightarrow> string"
  path_Join :: "string \<Rightarrow> string \<Rightarrow> string"

section \<open>The program\<close>

subsection \<open>checksumMismatchError\<close>

text \<open>
  \<^verbatim>\<open>fmt.Sprintf("Checksum mismatch (%s): expected=%s, got=%s", localChecksum,
  remoteChecksum, checksumType)\<close>: the three arguments fill the three verbs in the order
  they are passed.
\<close>

definition checksumMismatchError :: "string \<Rightarrow> string \<Rightarrow> string \<Rightarrow> string" where
  "checksumMismatchError localChecksum remoteChecksum checksumType =
     ''Checksum mismatch ('' @ localChecksum @ ''): expected='' @ remoteChecksum
       @ '', got='' @ checksumType"

subsection \<open>downloadPackage\<close>

text \<open>
  Lines 149 to 198.  \<^verbatim>\<open>http.NewRequest\<close> fails when the URL does not parse; the
  cache-busting branch parses the same string again and sets the \<^verbatim>\<open>time\<close> parameter
  on the request's URL only.  Any status code other than 200 is an error.  The file name
  is taken from \<open>downloadUrl\<close> itself, and the body is copied to the created file.
\<close>

definition downloadPackage ::
  "'s stdlib \<Rightarrow> string \<Rightarrow> string \<Rightarrow> providerConfig \<Rightarrow> bool \<Rightarrow> world
     \<Rightarrow> (error + string) \<times> world" where
  "downloadPackage L downloadUrl downloadDir pc bustCache w =
     (if \<not> url_Parse_ok L downloadUrl then (Inl (RequestError downloadUrl), w)
      else
        let req = \<lparr>reqURL = downloadUrl, timeParam = None,
                   authorization = ''Token '' @ APIKey pc\<rparr> in
        case (if bustCache
              then (if \<not> url_Parse_ok L downloadUrl then Inl (UrlParseError downloadUrl)
                    else Inr (req\<lparr>timeParam := Some (now w)\<rparr>))
              else Inr req) of
          Inl e \<Rightarrow> (Inl e, w)
        | Inr req' \<Rightarrow>
            let w1 = w\<lparr>requests := requests w @ [req']\<rparr> in
            (case HTTPClient pc (length (requests w)) req' of
               DoError m \<Rightarrow> (Inl (TransportError m), w1)
             | Response statusCode body copyErr \<Rightarrow>
                 if statusCode \<noteq> 200
                 then (Inl (HTTPStatusError downloadUrl statusCode), w1)
                 else
                   let filename = path_Base L downloadUrl;
                       outputPath = path_Join L downloadDir filename in
                   if createFails w1 outputPath then (Inl (CreateError outputPath), w1)
                   else
                     let w2 = w1\<lparr>files := (files w1)(outputPath \<mapsto> body)\<rparr> in
                     if copyErr then (Inl (CopyError outputPath), w2)
                     else (Inr outputPath, w2)))"

subsection \<open>calculateChecksums\<close>

text \<open>\<^verbatim>\<open>hex.EncodeToString\<close>: two digits of the lowercase table per byte.\<close>

definition hextable :: string where
  "hextable = ''0123456789abcdef''"

definition hex_EncodeToString :: "byte list \<Rightarrow> string" where
  "hex_EncodeToString src =
     concat (map (\<lambda>v. [hextable ! unat (drop_bit 4 v), hextable ! unat (v AND 0x0f)]) src)"

text \<open>
  \<^verbatim>\<open>io.Copy\<close> reads the source through a buffer of 32 KiB and hands every
  non-empty chunk to the writer; \<open>chunks\<close> cuts the content as the reads do.
\<close>

definition copyBufSize :: nat where
  "copyBufSize = 32 * 1024"

function chunks :: "nat \<Rightarrow> 'a list \<Rightarrow> 'a list list" where
  "chunks n xs = (if n = 0 \<or> xs = [] then [] else take n xs # chunks n (drop n xs))"
  by pat_completeness auto
termination
  by (relation "measure (\<lambda>(n, xs). length xs)") auto

declare chunks.simps [simp del]

text \<open>
  \<^verbatim>\<open>io.MultiWriter(md5hash, sha1hash, sha256hash, sha512hash)\<close>: one \<^verbatim>\<open>Write\<close>
  hands the same chunk to each of the four hashes in turn.  A hash never reports a write
  error.
\<close>

definition multiWrite ::
  "'s stdlib \<Rightarrow> 's \<times> 's \<times> 's \<times> 's \<Rightarrow> byte list \<Rightarrow> 's \<times> 's \<times> 's \<times> 's" where
  "multiWrite L hs p =
     (case hs of (m, s1, s256, s512) \<Rightarrow>
        (hWrite (md5 L) m p, hWrite (sha1 L) s1 p,
         hWrite (sha256 L) s256 p, hWrite (sha512 L) s512 p))"

definition io_Copy :: "('w \<Rightarrow> byte list \<Rightarrow> 'w) \<Rightarrow> 'w \<Rightarrow> byte list \<Rightarrow> bool \<Rightarrow> 'w option" where
  "io_Copy wr dst content readErr =
     (if readErr then None else Some (foldl wr dst (chunks copyBufSize content)))"

text \<open>
  Lines 200 to 224.  On an error the source returns the zero \<^verbatim>\<open>Checksums\<close> with the
  error; its callers drop the value, and the model returns the error alone.
\<close>

definition calculateChecksums ::
  "'s stdlib \<Rightarrow> string \<Rightarrow> world \<Rightarrow> (error + Checksums) \<times> world" where
  "calculateChecksums L filePath w =
     (case (if openFails w filePath then None else files w filePath) of
        None \<Rightarrow> (Inl (OpenError filePath), w)
      | Some content \<Rightarrow>
          let w1 = w\<lparr>opened := opened w @ [filePath]\<rparr>;
              hs = (hNew (md5 L), hNew (sha1 L), hNew (sha256 L), hNew (sha512 L)) in
          (case io_Copy (multiWrite L) hs content (readFails w filePath) of
             None \<Rightarrow> (Inl (ReadError filePath), w1)
           | Some (md5hash, sha1hash, sha256hash, sha512hash) \<Rightarrow>
               (Inr \<lparr>MD5 = hex_EncodeToString (hSum (md5 L) md5hash),
                     SHA1 = hex_EncodeToString (hSum (sha1 L) sha1hash),
                     SHA256 = hex_EncodeToString (hSum (sha256 L) sha256hash),
                     SHA512 = hex_EncodeToString (hSum (sha512 L) sha512hash)\<rparr>, w1)))"

subsection \<open>dataSourcePackageRead\<close>

text \<open>The condition of lines 89, 109 and 117: Go's \<^verbatim>\<open>!=\<close> on strings, byte for byte.\<close>

definition checksumsDiffer :: "Checksums \<Rightarrow> Package \<Rightarrow> bool" where
  "checksumsDiffer l pkg \<longleftrightarrow>
     MD5 l \<noteq> GetChecksumMd5 pkg \<or> SHA1 l \<noteq> GetChecksumSha1 pkg
     \<or> SHA256 l \<noteq> GetChecksumSha256 pkg \<or> SHA512 l \<noteq> GetChecksumSha512 pkg"

definition newline :: string where
  "newline = [CHR 0x0A]"

text \<open>The message built in lines 118 to 130.\<close>

definition mismatchReport :: "Checksums \<Rightarrow> Package \<Rightarrow> string" where
  "mismatchReport l pkg =
     (let errMsg = [];
          errMsg = (if MD5 l \<noteq> GetChecksumMd5 pkg
                    then errMsg @ checksumMismatchError (MD5 l) (GetChecksumMd5 pkg) ''MD5''
                           @ newline
                    else errMsg);
          errMsg = (if SHA1 l \<noteq> GetChecksumSha1 pkg
                    then errMsg @ checksumMismatchError (SHA1 l) (GetChecksumSha1 pkg) ''SHA1''
                           @ newline
                    else errMsg);
          errMsg = (if SHA256 l \<noteq> GetChecksumSha256 pkg
                    then errMsg
                           @ checksumMismatchError (SHA256 l) (GetChecksumSha256 pkg) ''SHA256''
                           @ newline
                    else errMsg);
          errMsg = (if SHA512 l \<noteq> GetChecksumSha512 pkg
                    then errMsg
                           @ checksumMismatchError (SHA512 l) (GetChecksumSha512 pkg) ''SHA512''
                           @ newline
                    else errMsg)
      in errMsg)"

text \<open>Lines 50 to 67: the metadata fields, the API checksums and the id.\<close>

definition setMetadata :: "ResourceData \<Rightarrow> config \<Rightarrow> Package \<Rightarrow> ResourceData" where
  "setMetadata d cfg pkg =
     (let d = Set d ''cdn_url'' (S (GetCdnUrl pkg));
          d = Set d ''format'' (S (Format pkg));
          d = Set d ''is_sync_awaiting'' (B (IsSyncAwaiting pkg));
          d = Set d ''is_sync_completed'' (B (IsSyncCompleted pkg));
          d = Set d ''is_sync_failed'' (B (IsSyncFailed pkg));
          d = Set d ''is_sync_in_flight'' (B (IsSyncInFlight pkg));
          d = Set d ''is_sync_in_progress'' (B (IsSyncInProgress pkg));
          d = Set d ''name'' (S (Name pkg));
          d = Set d ''slug'' (S (Slug pkg));
          d = Set d ''slug_perm'' (S (SlugPerm pkg));
          d = Set d ''version'' (S (Version pkg));
          d = Set d ''checksum_md5'' (S (GetChecksumMd5 pkg));
          d = Set d ''checksum_sha1'' (S (GetChecksumSha1 pkg));
          d = Set d ''checksum_sha256'' (S (GetChecksumSha256 pkg));
          d = Set d ''checksum_sha512'' (S (GetChecksumSha512 pkg))
      in SetId d (namespace cfg @ ''_'' @ repository cfg @ ''_'' @ SlugPerm pkg))"

text \<open>Lines 112 to 115 and again lines 137 to 140.\<close>

definition setLocalChecksums :: "ResourceData \<Rightarrow> Checksums \<Rightarrow> ResourceData" where
  "setLocalChecksums d l =
     (let d = Set d ''checksum_md5'' (S (MD5 l));
          d = Set d ''checksum_sha1'' (S (SHA1 l));
          d = Set d ''checksum_sha256'' (S (SHA256 l))
      in Set d ''checksum_sha512'' (S (SHA512 l)))"

definition Println :: "world \<Rightarrow> string \<Rightarrow> world" where
  "Println w s = w\<lparr>stdout := stdout w @ [s]\<rparr>"

definition retryMessage :: string where
  "retryMessage = ''Package pulled again with bustCache due to checksum mismatch.''"

definition ignoreWarning :: string where
  "ignoreWarning =
     ''Warning: ignore_checksums set to true, downloading mismatched checksum file.''"

text \<open>
  The result is the returned error (\<open>None\<close> for \<^verbatim>\<open>nil\<close>), the resource data as the
  call leaves it, and the world.
\<close>

definition dataSourcePackageRead ::
  "'s stdlib \<Rightarrow> config \<Rightarrow> ResourceData \<Rightarrow> providerConfig \<Rightarrow> world
     \<Rightarrow> error option \<times> ResourceData \<times> world" where
  "dataSourcePackageRead L cfg d pc w =
     (case PackagesReadExecute pc (namespace cfg) (repository cfg) (package_identifier cfg) of
        Inl e \<Rightarrow> (Some e, d, w)
      | Inr pkg \<Rightarrow>
          let d = setMetadata d cfg pkg in
          if download cfg then
            (case downloadPackage L (GetCdnUrl pkg) (download_dir cfg) pc False w of
               (Inl e, w) \<Rightarrow> (Some e, d, w)
             | (Inr outputPath, w) \<Rightarrow>
                 let d = Set d ''output_path'' (S outputPath);
                     d = Set d ''output_directory'' (S (download_dir cfg)) in
                 (case calculateChecksums L outputPath w of
                    (Inl e, w) \<Rightarrow> (Some e, d, w)
                  | (Inr localChecksums, w) \<Rightarrow>
                      if checksumsDiffer localChecksums pkg then
                        (case downloadPackage L (GetCdnUrl pkg) (download_dir cfg) pc True w of
                           (Inl e, w) \<Rightarrow> (Some e, d, w)
                         | (Inr outputPath', w) \<Rightarrow>
                             let w = Println w retryMessage in
                             (case calculateChecksums L outputPath' w of
                                (Inl e, w) \<Rightarrow> (Some e, d, w)
                              | (Inr localChecksums, w) \<Rightarrow>
                                  if checksumsDiffer localChecksums pkg then
                                    if ignore_checksums cfg then
                                      let w = Println w ignoreWarning;
                                          d = setLocalChecksums d localChecksums in
                                      (None, setLocalChecksums d localChecksums, w)
                                    else if checksumsDiffer localChecksums pkg then
                                      (Some (MismatchError (mismatchReport localChecksums pkg)),
                                       d, w)
                                    else (None, setLocalChecksums d localChecksums, w)
                                  else (None, setLocalChecksums d localChecksums, w)))
                      else (None, setLocalChecksums d localChecksums, w)))
          else
            let d = Set d ''output_path'' (S (GetCdnUrl pkg));
                d = Set d ''output_directory'' (S []) in
            (None, d, w))"

section \<open>The specification's vocabulary\<close>

text \<open>
  The four algorithms of a digest set.  An expected entry is present when the metadata
  populated the field; the observed entry is what \<open>calculateChecksums\<close> returned.
\<close>

datatype algorithm = AlgMD5 | AlgSHA1 | AlgSHA256 | AlgSHA512

definition algorithms :: "algorithm list" where
  "algorithms = [AlgMD5, AlgSHA1, AlgSHA256, AlgSHA512]"

fun expected :: "Package \<Rightarrow> algorithm \<Rightarrow> string option" where
  "expected pkg AlgMD5 = ChecksumMd5 pkg"
| "expected pkg AlgSHA1 = ChecksumSha1 pkg"
| "expected pkg AlgSHA256 = ChecksumSha256 pkg"
| "expected pkg AlgSHA512 = ChecksumSha512 pkg"

fun observed :: "Checksums \<Rightarrow> algorithm \<Rightarrow> string" where
  "observed l AlgMD5 = MD5 l"
| "observed l AlgSHA1 = SHA1 l"
| "observed l AlgSHA256 = SHA256 l"
| "observed l AlgSHA512 = SHA512 l"

fun algorithmName :: "algorithm \<Rightarrow> string" where
  "algorithmName AlgMD5 = ''MD5''"
| "algorithmName AlgSHA1 = ''SHA1''"
| "algorithmName AlgSHA256 = ''SHA256''"
| "algorithmName AlgSHA512 = ''SHA512''"

text \<open>Case-insensitive comparison of two hexadecimal strings.\<close>

definition toLower :: "char \<Rightarrow> char" where
  "toLower c =
     (let n = (of_char c :: nat) in if 65 \<le> n \<and> n \<le> 90 then char_of (n + 32) else c)"

definition equalFold :: "string \<Rightarrow> string \<Rightarrow> bool" where
  "equalFold a b \<longleftrightarrow> map toLower a = map toLower b"

text \<open>
  The terminal outcome of a call, read off what the caller can see: the returned error,
  the resource data and the lines the call printed.  \<open>Aborted\<close> is a fatal error,
  \<open>NotDownloaded\<close> the path with \<^verbatim>\<open>download = false\<close>.
\<close>

datatype VerificationOutcome =
    Verified string Checksums
  | AcceptedWithMismatch string Checksums
  | Failed string
  | Aborted error
  | NotDownloaded

definition strAttr :: "ResourceData \<Rightarrow> string \<Rightarrow> string" where
  "strAttr d k = (case attrs d k of Some (S s) \<Rightarrow> s | _ \<Rightarrow> [])"

definition reportedDigests :: "ResourceData \<Rightarrow> Checksums" where
  "reportedDigests d =
     \<lparr>MD5 = strAttr d ''checksum_md5'', SHA1 = strAttr d ''checksum_sha1'',
      SHA256 = strAttr d ''checksum_sha256'', SHA512 = strAttr d ''checksum_sha512''\<rparr>"

definition expectedDigests :: "Package \<Rightarrow> Checksums" where
  "expectedDigests pkg =
     \<lparr>MD5 = GetChecksumMd5 pkg, SHA1 = GetChecksumSha1 pkg,
      SHA256 = GetChecksumSha256 pkg, SHA512 = GetChecksumSha512 pkg\<rparr>"

definition printed :: "world \<Rightarrow> world \<Rightarrow> string list" where
  "printed w w' = drop (length (stdout w)) (stdout w')"

definition fetched :: "world \<Rightarrow> world \<Rightarrow> request list" where
  "fetched w w' = drop (length (requests w)) (requests w')"

definition digested :: "world \<Rightarrow> world \<Rightarrow> string list" where
  "digested w w' = drop (length (opened w)) (opened w')"

definition outcome ::
  "config \<Rightarrow> world \<Rightarrow> error option \<times> ResourceData \<times> world \<Rightarrow> VerificationOutcome" where
  "outcome cfg w r =
     (case fst r of
        Some e \<Rightarrow> (case e of MismatchError m \<Rightarrow> Failed m | _ \<Rightarrow> Aborted e)
      | None \<Rightarrow>
          if \<not> download cfg then NotDownloaded
          else if ignoreWarning \<in> set (printed w (snd (snd r)))
          then AcceptedWithMismatch (strAttr (fst (snd r)) ''output_path'')
                 (reportedDigests (fst (snd r)))
          else Verified (strAttr (fst (snd r)) ''output_path'')
                 (reportedDigests (fst (snd r))))"

text \<open>
  The request an attempt hands to the client, and the two attempts of the protocol: a
  download followed by the digests of the file it wrote.  The second attempt is the one
  of lines 91 to 98, with the cache bypassed and the retry notice printed between the
  download and the digests.
\<close>

definition requestOf :: "providerConfig \<Rightarrow> string \<Rightarrow> int option \<Rightarrow> request" where
  "requestOf pc url t =
     \<lparr>reqURL = url, timeParam = t, authorization = ''Token '' @ APIKey pc\<rparr>"

definition firstAttempt ::
  "'s stdlib \<Rightarrow> config \<Rightarrow> providerConfig \<Rightarrow> Package \<Rightarrow> world
     \<Rightarrow> (error + Checksums) \<times> world" where
  "firstAttempt L cfg pc pkg w =
     (case downloadPackage L (GetCdnUrl pkg) (download_dir cfg) pc False w of
        (Inl e, w1) \<Rightarrow> (Inl e, w1)
      | (Inr outputPath, w1) \<Rightarrow> calculateChecksums L outputPath w1)"

definition secondAttempt ::
  "'s stdlib \<Rightarrow> config \<Rightarrow> providerConfig \<Rightarrow> Package \<Rightarrow> world
     \<Rightarrow> (error + Checksums) \<times> world" where
  "secondAttempt L cfg pc pkg w =
     (case downloadPackage L (GetCdnUrl pkg) (download_dir cfg) pc True w of
        (Inl e, w1) \<Rightarrow> (Inl e, w1)
      | (Inr outputPath, w1) \<Rightarrow> calculateChecksums L outputPath (Println w1 retryMessage))"

text \<open>The local path both attempts write to.\<close>

definition outputPathOf :: "'s stdlib \<Rightarrow> config \<Rightarrow> Package \<Rightarrow> string" where
  "outputPathOf L cfg pkg = path_Join L (download_dir cfg) (path_Base L (GetCdnUrl pkg))"

text \<open>The resource data once lines 50 to 75 have run: metadata, output path, directory.\<close>

definition afterDownload :: "ResourceData \<Rightarrow> config \<Rightarrow> Package \<Rightarrow> string \<Rightarrow> ResourceData" where
  "afterDownload d cfg pkg p =
     Set (Set (setMetadata d cfg pkg) ''output_path'' (S p)) ''output_directory''
       (S (download_dir cfg))"

text \<open>
  The independent computation of one digest: a fresh hash, one \<^verbatim>\<open>Write\<close> of the
  whole byte sequence, \<^verbatim>\<open>Sum\<close>, hexadecimal encoding.
\<close>

definition hexdigest :: "'s hasher \<Rightarrow> byte list \<Rightarrow> string" where
  "hexdigest h bs = hex_EncodeToString (hSum h (hWrite h (hNew h) bs))"

text \<open>
  The contract of \<^verbatim>\<open>hash.Hash\<close>: \<^verbatim>\<open>Write\<close> adds data to the running hash, so
  writing two pieces one after the other is writing their concatenation, and writing
  nothing changes nothing.
\<close>

definition hash_contract :: "'s hasher \<Rightarrow> bool" where
  "hash_contract h \<longleftrightarrow>
     (\<forall>s. hWrite h s [] = s) \<and> (\<forall>s a b. hWrite h (hWrite h s a) b = hWrite h s (a @ b))"

section \<open>A concrete setting\<close>

text \<open>
  Hashes that keep the bytes written so far and answer with the true digests of the two
  contents the scenarios serve, the empty file and the one-byte file \<^verbatim>\<open>a\<close>; any
  other content gets a row of zero bytes of the digest's length.  The digests are
  written in hexadecimal and read back into bytes by \<open>fromHex\<close>.
\<close>

definition hexval :: "char \<Rightarrow> byte" where
  "hexval c = of_nat (length (takeWhile (\<lambda>x. x \<noteq> c) hextable))"

fun fromHex :: "string \<Rightarrow> byte list" where
  "fromHex (a # b # cs) = (push_bit 4 (hexval a) OR hexval b) # fromHex cs"
| "fromHex cs = []"

definition md5_of_empty :: "byte list" where
  "md5_of_empty = fromHex ''d41d8cd98f00b204e9800998ecf8427e''"

definition md5_of_a :: "byte list" where
  "md5_of_a = fromHex ''0cc175b9c0f1b6a831c399e269772661''"

definition sha1_of_empty :: "byte list" where
  "sha1_of_empty = fromHex ''da39a3ee5e6b4b0d3255bfef95601890afd80709''"

definition sha1_of_a :: "byte list" where
  "sha1_of_a = fromHex ''86f7e437faa5a7fce15d1ddcb9eaeaea377667b8''"

definition sha256_of_empty :: "byte list" where
  "sha256_of_empty = fromHex ''e3b0c44298fc1c149afbf4c8996fb92427ae41e4649b934ca495991b7852b855''"

definition sha256_of_a :: "byte list" where
  "sha256_of_a = fromHex ''ca978112ca1bbdcafac231b39a23dc4da786eff8147c4e72b9807785afee48bb''"

definition sha512_of_empty :: "byte list" where
  "sha512_of_empty = fromHex (''cf83e1357eefb8bdf1542850d66d8007d620e4050b5715dc83f4a921d36ce9ce''
       @ ''47d0d13c5d85f2b0ff8318d2877eec2f63b931bd47417a81a538327af927da3e'')"

definition sha512_of_a :: "byte list" where
  "sha512_of_a = fromHex (''1f40fc92da241694750979ee6cf582f2d5d7d28e18335de05abc54d0560e0f53''
       @ ''02860c652bf08d560252aa5e74210546f369fbbbce8c12cfc7957b2652fe9a75'')"

definition tableHasher :: "byte list \<Rightarrow> byte list \<Rightarrow> nat \<Rightarrow> (byte list) hasher" where
  "tableHasher ofEmpty ofA n =
     \<lparr>hNew = [], hWrite = (\<lambda>s p. s @ p),
      hSum = (\<lambda>s. if s = [] then ofEmpty else if s = [0x61] then ofA else replicate n 0)\<rparr>"

text \<open>
  \<^verbatim>\<open>path.Base\<close>, \<^verbatim>\<open>path.Clean\<close> and \<^verbatim>\<open>path.Join\<close> as the Go library defines
  them.  \<open>go_path_Base\<close> strips trailing slashes and keeps what follows the last
  slash.  \<open>go_path_Clean\<close> works on the elements between slashes: empty elements and
  \<^verbatim>\<open>.\<close> are dropped, \<^verbatim>\<open>..\<close> removes the element before it, is kept at the head of a
  path that is not rooted and is dropped at the root; the empty result is \<^verbatim>\<open>.\<close>.
  \<open>go_path_Join\<close> puts a slash between its two arguments, unless both are empty, and
  cleans the result.
\<close>

definition go_path_Base :: "string \<Rightarrow> string" where
  "go_path_Base p =
     (if p = [] then ''.''
      else
        let p1 = rev (dropWhile (\<lambda>c. c = CHR ''/'') (rev p));
            p2 = rev (takeWhile (\<lambda>c. c \<noteq> CHR ''/'') (rev p1)) in
        if p2 = [] then ''/'' else p2)"

fun split_slash :: "string \<Rightarrow> string list" where
  "split_slash [] = [[]]"
| "split_slash (c # cs) =
     (if c = CHR ''/'' then [] # split_slash cs
      else (case split_slash cs of [] \<Rightarrow> [[c]] | x # xs \<Rightarrow> (c # x) # xs))"

fun cleanElems :: "bool \<Rightarrow> string list \<Rightarrow> string list \<Rightarrow> string list" where
  "cleanElems rooted out [] = out"
| "cleanElems rooted out (e # es) =
     (if e = [] \<or> e = ''.'' then cleanElems rooted out es
      else if e = ''..'' then
        (if out \<noteq> [] \<and> last out \<noteq> ''..'' then cleanElems rooted (butlast out) es
         else if \<not> rooted then cleanElems rooted (out @ [''..'']) es
         else cleanElems rooted out es)
      else cleanElems rooted (out @ [e]) es)"

fun joinSlash :: "string list \<Rightarrow> string" where
  "joinSlash [] = []"
| "joinSlash [x] = x"
| "joinSlash (x # y # ys) = x @ ''/'' @ joinSlash (y # ys)"

definition go_path_Clean :: "string \<Rightarrow> string" where
  "go_path_Clean p =
     (if p = [] then ''.''
      else
        let rooted = (hd p = CHR ''/'');
            out = cleanElems rooted [] (split_slash p);
            s = (if rooted then ''/'' else []) @ joinSlash out in
        if s = [] then ''.'' else s)"

definition go_path_Join :: "string \<Rightarrow> string \<Rightarrow> string" where
  "go_path_Join dir file =
     (if dir = [] \<and> file = [] then []
      else
        let buf = dir;
            buf = (if buf \<noteq> [] \<or> file \<noteq> []
                   then (if buf \<noteq> [] then buf @ ''/'' else buf) @ file
                   else buf) in
        go_path_Clean buf)"

definition demoLib :: "(byte list) stdlib" where
  "demoLib =
     \<lparr>md5 = tableHasher md5_of_empty md5_of_a 16,
      sha1 = tableHasher sha1_of_empty sha1_of_a 20,
      sha256 = tableHasher sha256_of_empty sha256_of_a 32,
      sha512 = tableHasher sha512_of_empty sha512_of_a 64,
      url_Parse_ok = (\<lambda>u. True),
      path_Base = go_path_Base,
      path_Join = go_path_Join\<rparr>"

definition demoUrl :: string where
  "demoUrl = ''https://dl.example.com/acme/tools/raw/files/pkg.tgz''"

definition demoCfg :: "bool \<Rightarrow> config" where
  "demoCfg ignore =
     \<lparr>namespace = ''acme'', repository = ''tools'', package_identifier = ''pkg-1'',
      download = True, download_dir = ''/tmp'', ignore_checksums = ignore\<rparr>"

text \<open>A package whose four expected digests are given.\<close>

definition demoPkg ::
  "string option \<Rightarrow> string option \<Rightarrow> string option \<Rightarrow> string option \<Rightarrow> Package" where
  "demoPkg m s1 s256 s512 =
     \<lparr>CdnUrl = Some demoUrl, Format = ''raw'', IsSyncAwaiting = False,
      IsSyncCompleted = True, IsSyncFailed = False, IsSyncInFlight = False,
      IsSyncInProgress = False, Name = ''pkg.tgz'', Slug = ''pkg-tgz'',
      SlugPerm = ''AbC123'', Version = ''1.0'',
      ChecksumMd5 = m, ChecksumSha1 = s1, ChecksumSha256 = s256, ChecksumSha512 = s512\<rparr>"

text \<open>The package whose metadata holds the digests of the empty file.\<close>

definition pkgOfEmpty :: Package where
  "pkgOfEmpty =
     demoPkg (Some ''d41d8cd98f00b204e9800998ecf8427e'')
       (Some ''da39a3ee5e6b4b0d3255bfef95601890afd80709'')
       (Some ''e3b0c44298fc1c149afbf4c8996fb92427ae41e4649b934ca495991b7852b855'')
       (Some (''cf83e1357eefb8bdf1542850d66d8007d620e4050b5715dc83f4a921d36ce9ce''
              @ ''47d0d13c5d85f2b0ff8318d2877eec2f63b931bd47417a81a538327af927da3e''))"

text \<open>The package whose metadata holds no digest at all.\<close>

definition pkgNoDigests :: Package where
  "pkgNoDigests = demoPkg None None None None"

text \<open>
  The package whose metadata holds no MD5 digest, the SHA-1 digest of the empty file and
  the SHA-256 and SHA-512 digests of the file \<^verbatim>\<open>a\<close>.
\<close>

definition pkgNoMd5 :: Package where
  "pkgNoMd5 =
     demoPkg None (Some ''da39a3ee5e6b4b0d3255bfef95601890afd80709'')
       (Some ''ca978112ca1bbdcafac231b39a23dc4da786eff8147c4e72b9807785afee48bb'')
       (Some (''1f40fc92da241694750979ee6cf582f2d5d7d28e18335de05abc54d0560e0f53''
              @ ''02860c652bf08d560252aa5e74210546f369fbbbce8c12cfc7957b2652fe9a75''))"

definition demoPc :: "Package \<Rightarrow> (nat \<Rightarrow> request \<Rightarrow> http_result) \<Rightarrow> providerConfig" where
  "demoPc pkg client =
     \<lparr>APIKey = ''k3y'', PackagesReadExecute = (\<lambda>ns repo ident. Inr pkg),
      HTTPClient = client\<rparr>"

text \<open>
  Servers: one that always serves the same body, one whose cache is stale (the body
  \<^verbatim>\<open>a\<close>) until the request carries the \<^verbatim>\<open>time\<close> parameter, one that answers with
  a fixed status code and no body, and one that serves a body first and a status code
  on the second request.
\<close>

definition serveAlways :: "byte list \<Rightarrow> nat \<Rightarrow> request \<Rightarrow> http_result" where
  "serveAlways body n req = Response 200 body False"

definition serveStale :: "nat \<Rightarrow> request \<Rightarrow> http_result" where
  "serveStale n req =
     (if timeParam req = None then Response 200 [0x61] False else Response 200 [] False)"

definition serveStatus :: "int \<Rightarrow> nat \<Rightarrow> request \<Rightarrow> http_result" where
  "serveStatus code n req = Response code [] False"

definition serveThenStatus :: "byte list \<Rightarrow> int \<Rightarrow> nat \<Rightarrow> request \<Rightarrow> http_result" where
  "serveThenStatus body code n req =
     (if n = 0 then Response 200 body False else Response code [] False)"

text \<open>The digests of the empty file and of the file \<^verbatim>\<open>a\<close>, in hexadecimal.\<close>

definition digestsOfEmpty :: Checksums where
  "digestsOfEmpty =
     \<lparr>MD5 = ''d41d8cd98f00b204e9800998ecf8427e'',
      SHA1 = ''da39a3ee5e6b4b0d3255bfef95601890afd80709'',
      SHA256 = ''e3b0c44298fc1c149afbf4c8996fb92427ae41e4649b934ca495991b7852b855'',
      SHA512 = ''cf83e1357eefb8bdf1542850d66d8007d620e4050b5715dc83f4a921d36ce9ce''
               @ ''47d0d13c5d85f2b0ff8318d2877eec2f63b931bd47417a81a538327af927da3e''\<rparr>"

definition digestsOfA :: Checksums where
  "digestsOfA =
     \<lparr>MD5 = ''0cc175b9c0f1b6a831c399e269772661'',
      SHA1 = ''86f7e437faa5a7fce15d1ddcb9eaeaea377667b8'',
      SHA256 = ''ca978112ca1bbdcafac231b39a23dc4da786eff8147c4e72b9807785afee48bb'',
      SHA512 = ''1f40fc92da241694750979ee6cf582f2d5d7d28e18335de05abc54d0560e0f53''
               @ ''02860c652bf08d560252aa5e74210546f369fbbbce8c12cfc7957b2652fe9a75''\<rparr>"

definition demoWorld :: world where
  "demoWorld =
     \<lparr>now = 1700000000, files = Map.empty, createFails = (\<lambda>p. False),
      openFails = (\<lambda>p. False), readFails = (\<lambda>p. False),
      requests = [], opened = [], stdout = []\<rparr>"

text \<open>
  The world after a first attempt that wrote \<open>body\<close>, and the world after a second
  attempt that wrote \<open>body\<close> over it.
\<close>

definition demoWorld1 :: "providerConfig \<Rightarrow> byte list \<Rightarrow> world" where
  "demoWorld1 pc body =
     demoWorld\<lparr>files := [''/tmp/pkg.tgz'' \<mapsto> body],
       requests := [requestOf pc demoUrl None], opened := [''/tmp/pkg.tgz'']\<rparr>"

definition demoWorld2 :: "providerConfig \<Rightarrow> byte list \<Rightarrow> world" where
  "demoWorld2 pc body =
     demoWorld\<lparr>files := [''/tmp/pkg.tgz'' \<mapsto> body],
       requests := [requestOf pc demoUrl None, requestOf pc demoUrl (Some 1700000000)],
       opened := [''/tmp/pkg.tgz'', ''/tmp/pkg.tgz''], stdout := [retryMessage]\<rparr>"

definition demoData :: ResourceData where
  "demoData = \<lparr>attrs = Map.empty, Id = []\<rparr>"

section \<open>Auxiliary facts\<close>

subsection \<open>What each call leaves unchanged\<close>

lemma downloadPackage_frame:
  assumes "downloadPackage L u dir pc b w = (r, w')"
  shows "stdout w' = stdout w" and "opened w' = opened w" and "now w' = now w"
    and "openFails w' = openFails w" and "readFails w' = readFails w"
    and "createFails w' = createFails w"
  using assms
  by (auto simp: downloadPackage_def Let_def split: if_splits sum.splits http_result.splits)


lemma downloadPackage_issues:
  assumes "url_Parse_ok L u" and "downloadPackage L u dir pc b w = (r, w')"
  shows "requests w' = requests w @ [requestOf pc u (if b then Some (now w) else None)]"
  using assms
  by (auto simp: downloadPackage_def requestOf_def Let_def
      split: if_splits sum.splits http_result.splits)

lemma downloadPackage_Inr:
  assumes "downloadPackage L u dir pc b w = (Inr p, w')"
  shows "p = path_Join L dir (path_Base L u)"
    and "requests w' = requests w @ [requestOf pc u (if b then Some (now w) else None)]"
    and "\<exists>body. HTTPClient pc (length (requests w))
                  (requestOf pc u (if b then Some (now w) else None)) = Response 200 body False
               \<and> files w' = (files w)(p \<mapsto> body)"
    and "url_Parse_ok L u"
  using assms
  by (auto simp: downloadPackage_def requestOf_def Let_def
      split: if_splits sum.splits http_result.splits)

lemma downloadPackage_status_error_iff:
  "fst (downloadPackage L u dir pc b w) = Inl (HTTPStatusError u' code) \<longleftrightarrow>
     u' = u \<and> url_Parse_ok L u \<and> code \<noteq> 200
     \<and> (\<exists>body copyErr.
           HTTPClient pc (length (requests w))
             (requestOf pc u (if b then Some (now w) else None)) = Response code body copyErr)"
  by (auto simp: downloadPackage_def requestOf_def Let_def
      split: if_splits sum.splits http_result.splits)

lemma downloadPackage_status_error_world:
  assumes "downloadPackage L u dir pc b w = (Inl (HTTPStatusError u' code), w')"
  shows "w' = w\<lparr>requests := requests w @ [requestOf pc u (if b then Some (now w) else None)]\<rparr>"
  using assms
  by (auto simp: downloadPackage_def requestOf_def Let_def
      split: if_splits sum.splits http_result.splits)

lemma calculateChecksums_frame:
  assumes "calculateChecksums L p w = (r, w')"
  shows "stdout w' = stdout w" and "requests w' = requests w" and "now w' = now w"
    and "files w' = files w"
    and "opened w' = opened w \<or> opened w' = opened w @ [p]"
  using assms
  by (auto simp: calculateChecksums_def Let_def split: if_splits option.splits prod.splits)

lemma calculateChecksums_Inr:
  assumes "calculateChecksums L p w = (Inr c, w')"
  shows "opened w' = opened w @ [p]"
  using assms
  by (auto simp: calculateChecksums_def Let_def split: if_splits option.splits prod.splits)

lemma calculateChecksums_MD5:
  assumes "calculateChecksums L p w = (Inr c, w')"
  shows "\<exists>s. MD5 c = hex_EncodeToString (hSum (md5 L) s)"
  using assms
  by (auto simp: calculateChecksums_def Let_def split: if_splits option.splits prod.splits)

lemma stdout_Println: "stdout (Println w s) = stdout w @ [s]"
  by (simp add: Println_def)

subsection \<open>The resource data\<close>

lemma attrs_Set: "attrs (Set d k v) = (attrs d)(k \<mapsto> v)"
  by (simp add: Set_def)

lemma strAttr_Set:
  "strAttr (Set d k v) k' = (if k' = k then (case v of S s \<Rightarrow> s | B b \<Rightarrow> []) else strAttr d k')"
  by (simp add: strAttr_def Set_def split: val.splits)

lemma strAttr_SetId: "strAttr (SetId d i) k = strAttr d k"
  by (simp add: strAttr_def SetId_def)

lemma reportedDigests_setLocalChecksums: "reportedDigests (setLocalChecksums d l) = l"
  by (simp add: reportedDigests_def setLocalChecksums_def strAttr_Set)

lemma output_path_setLocalChecksums:
  "strAttr (setLocalChecksums d l) ''output_path'' = strAttr d ''output_path''"
  by (simp add: setLocalChecksums_def strAttr_Set)

lemma reportedDigests_setMetadata:
  "reportedDigests (setMetadata d cfg pkg) = expectedDigests pkg"
  by (simp add: reportedDigests_def setMetadata_def expectedDigests_def strAttr_Set strAttr_SetId)

lemma strAttr_afterDownload [simp]:
  "strAttr (afterDownload d cfg pkg p) ''output_path'' = p"
  by (simp add: afterDownload_def strAttr_Set)

lemma reportedDigests_afterDownload [simp]:
  "reportedDigests (afterDownload d cfg pkg p) = expectedDigests pkg"
  using reportedDigests_setMetadata [of d cfg pkg]
  by (simp add: afterDownload_def reportedDigests_def strAttr_Set)

subsection \<open>Comparison and report\<close>

lemma not_checksumsDiffer:
  "\<not> checksumsDiffer l pkg \<Longrightarrow> expected pkg alg = Some e \<Longrightarrow> observed l alg = e"
  by (cases alg)
     (simp_all add: checksumsDiffer_def GetChecksumMd5_def GetChecksumSha1_def
        GetChecksumSha256_def GetChecksumSha512_def orEmpty_def)

lemma equalFold_refl: "equalFold a a"
  by (simp add: equalFold_def)

lemma mismatchReport_explicit:
  "mismatchReport l pkg =
     concat (map
       (\<lambda>alg. ''Checksum mismatch ('' @ observed l alg @ ''): expected=''
               @ (case expected pkg alg of None \<Rightarrow> [] | Some e \<Rightarrow> e)
               @ '', got='' @ algorithmName alg @ [CHR 0x0A])
       (filter
          (\<lambda>alg. case expected pkg alg of None \<Rightarrow> observed l alg \<noteq> []
                                        | Some e \<Rightarrow> observed l alg \<noteq> e)
          [AlgMD5, AlgSHA1, AlgSHA256, AlgSHA512]))"
  by (simp add: mismatchReport_def checksumMismatchError_def newline_def GetChecksumMd5_def
      GetChecksumSha1_def GetChecksumSha256_def GetChecksumSha512_def orEmpty_def Let_def
      split: option.splits)

lemma hex_EncodeToString_Nil_iff: "hex_EncodeToString src = [] \<longleftrightarrow> src = []"
  by (cases src) (simp_all add: hex_EncodeToString_def)

lemma absent_differ:
  assumes "ChecksumMd5 pkg = None" and "\<forall>s. hSum (md5 L) s \<noteq> []"
    and "\<exists>s. MD5 c = hex_EncodeToString (hSum (md5 L) s)"
  shows "checksumsDiffer c pkg"
proof -
  from assms(3) obtain s where "MD5 c = hex_EncodeToString (hSum (md5 L) s)" ..
  with assms(2) have "MD5 c \<noteq> []" by (simp add: hex_EncodeToString_Nil_iff)
  with assms(1) show ?thesis
    by (simp add: checksumsDiffer_def GetChecksumMd5_def orEmpty_def)
qed

subsection \<open>The digest engine\<close>

lemma concat_chunks: "0 < n \<Longrightarrow> concat (chunks n xs) = xs"
proof (induction n xs rule: chunks.induct)
  case (1 n xs)
  then show ?case by (subst chunks.simps) auto
qed

lemma foldl_hWrite:
  assumes "hash_contract h"
  shows "foldl (hWrite h) s cs = hWrite h s (concat cs)"
  using assms
  by (induction cs arbitrary: s) (auto simp: hash_contract_def)

lemma foldl_multiWrite:
  "foldl (multiWrite L) (a, b, c, d) cs =
     (foldl (hWrite (md5 L)) a cs, foldl (hWrite (sha1 L)) b cs,
      foldl (hWrite (sha256 L)) c cs, foldl (hWrite (sha512 L)) d cs)"
  by (induction cs arbitrary: a b c d) (auto simp: multiWrite_def)

lemma high_nibble: "unat (drop_bit 4 (v :: byte)) < 16"
proof -
  have "unat (drop_bit 4 v) = drop_bit 4 (unat v)" by (simp add: unat_drop_bit_eq)
  also have "\<dots> = unat v div 2 ^ 4" by (simp only: drop_bit_eq_div)
  finally have "unat (drop_bit 4 v) = unat v div 16" by simp
  moreover have "unat v < 2 ^ 8" using unsigned_less [of v] by simp
  ultimately show ?thesis by simp
qed

lemma low_nibble: "unat ((v :: byte) AND 0x0f) < 16"
proof -
  have "unat (v AND 15) \<le> unat (15 :: byte)"
    by (rule word_and_le1 [THEN word_le_nat_alt [THEN iffD1]])
  then show ?thesis by simp
qed

lemma hextable_nth: "n < 16 \<Longrightarrow> hextable ! n \<in> set ''0123456789abcdef''"
  unfolding hextable_def by (rule nth_mem) simp

lemma hex_EncodeToString_lowercase:
  "set (hex_EncodeToString src) \<subseteq> set ''0123456789abcdef''"
  unfolding hex_EncodeToString_def
  using hextable_nth [OF high_nibble] hextable_nth [OF low_nibble]
  by (induction src) auto

subsection \<open>The two attempts\<close>

lemma firstAttempt_Inr:
  "firstAttempt L cfg pc pkg w = (Inr c1, w2) \<longleftrightarrow>
     (\<exists>p1 w1. downloadPackage L (GetCdnUrl pkg) (download_dir cfg) pc False w = (Inr p1, w1)
        \<and> calculateChecksums L p1 w1 = (Inr c1, w2))"
  by (auto simp: firstAttempt_def split: prod.splits sum.splits)

lemma secondAttempt_Inr:
  "secondAttempt L cfg pc pkg w = (Inr c2, w4) \<longleftrightarrow>
     (\<exists>p2 w3. downloadPackage L (GetCdnUrl pkg) (download_dir cfg) pc True w = (Inr p2, w3)
        \<and> calculateChecksums L p2 (Println w3 retryMessage) = (Inr c2, w4))"
  by (auto simp: secondAttempt_def split: prod.splits sum.splits)

lemma firstAttempt_world:
  assumes "firstAttempt L cfg pc pkg w = (Inr c1, w2)"
  shows "requests w2 = requests w @ [requestOf pc (GetCdnUrl pkg) None]"
    and "now w2 = now w" and "stdout w2 = stdout w"
    and "opened w2 = opened w @ [outputPathOf L cfg pkg]"
proof -
  from assms obtain p1 w1
    where a: "downloadPackage L (GetCdnUrl pkg) (download_dir cfg) pc False w = (Inr p1, w1)"
      and b: "calculateChecksums L p1 w1 = (Inr c1, w2)"
    by (auto simp: firstAttempt_Inr)
  show "requests w2 = requests w @ [requestOf pc (GetCdnUrl pkg) None]"
    using downloadPackage_Inr(2) [OF a] calculateChecksums_frame(2) [OF b] by simp
  show "now w2 = now w"
    using downloadPackage_frame(3) [OF a] calculateChecksums_frame(3) [OF b] by simp
  show "stdout w2 = stdout w"
    using downloadPackage_frame(1) [OF a] calculateChecksums_frame(1) [OF b] by simp
  show "opened w2 = opened w @ [outputPathOf L cfg pkg]"
    using downloadPackage_frame(2) [OF a] calculateChecksums_Inr [OF b]
      downloadPackage_Inr(1) [OF a] by (simp add: outputPathOf_def)
qed

lemma secondAttempt_world:
  assumes "secondAttempt L cfg pc pkg w = (Inr c2, w4)"
  shows "requests w4 = requests w @ [requestOf pc (GetCdnUrl pkg) (Some (now w))]"
    and "now w4 = now w" and "stdout w4 = stdout w @ [retryMessage]"
    and "opened w4 = opened w @ [outputPathOf L cfg pkg]"
proof -
  from assms obtain p2 w3
    where a: "downloadPackage L (GetCdnUrl pkg) (download_dir cfg) pc True w = (Inr p2, w3)"
      and b: "calculateChecksums L p2 (Println w3 retryMessage) = (Inr c2, w4)"
    by (auto simp: secondAttempt_Inr)
  show "requests w4 = requests w @ [requestOf pc (GetCdnUrl pkg) (Some (now w))]"
    using downloadPackage_Inr(2) [OF a] calculateChecksums_frame(2) [OF b]
    by (simp add: Println_def)
  show "now w4 = now w"
    using downloadPackage_frame(3) [OF a] calculateChecksums_frame(3) [OF b]
    by (simp add: Println_def)
  show "stdout w4 = stdout w @ [retryMessage]"
    using downloadPackage_frame(1) [OF a] calculateChecksums_frame(1) [OF b]
    by (simp add: Println_def)
  show "opened w4 = opened w @ [outputPathOf L cfg pkg]"
    using downloadPackage_frame(2) [OF a] calculateChecksums_Inr [OF b]
      downloadPackage_Inr(1) [OF a] by (simp add: Println_def outputPathOf_def)
qed

lemma firstAttempt_MD5:
  assumes "firstAttempt L cfg pc pkg w = (Inr c, w')"
  shows "\<exists>s. MD5 c = hex_EncodeToString (hSum (md5 L) s)"
  using assms calculateChecksums_MD5 by (fastforce simp: firstAttempt_Inr)

lemma secondAttempt_MD5:
  assumes "secondAttempt L cfg pc pkg w = (Inr c, w')"
  shows "\<exists>s. MD5 c = hex_EncodeToString (hSum (md5 L) s)"
  using assms calculateChecksums_MD5 by (fastforce simp: secondAttempt_Inr)

lemma firstAttempt_url_ok:
  assumes "firstAttempt L cfg pc pkg w = (Inr c1, w2)"
  shows "url_Parse_ok L (GetCdnUrl pkg)"
  using assms downloadPackage_Inr(4) by (fastforce simp: firstAttempt_Inr)

lemma secondAttempt_requests:
  assumes "url_Parse_ok L (GetCdnUrl pkg)" and "secondAttempt L cfg pc pkg w = (r, w')"
  shows "requests w' = requests w @ [requestOf pc (GetCdnUrl pkg) (Some (now w))]"
proof (cases "downloadPackage L (GetCdnUrl pkg) (download_dir cfg) pc True w")
  case (Pair r1 w1)
  note dl = downloadPackage_issues [OF assms(1) Pair]
  show ?thesis
  proof (cases r1)
    case (Inl e)
    with Pair assms(2) dl show ?thesis by (simp add: secondAttempt_def)
  next
    case (Inr p)
    with Pair assms(2) have "calculateChecksums L p (Println w1 retryMessage) = (r, w')"
      by (simp add: secondAttempt_def)
    from calculateChecksums_frame(2) [OF this] dl show ?thesis
      by (simp add: Println_def)
  qed
qed

lemma accepted_prints_warning:
  assumes "downloadPackage L u dir pc False w = (Inr p1, w1)"
    and "calculateChecksums L p1 w1 = (Inr c1, w2)"
    and "downloadPackage L u dir pc True w2 = (Inr p2, w3)"
    and "calculateChecksums L p2 (Println w3 retryMessage) = (Inr c2, w4)"
  shows "printed w w4 = [retryMessage]"
    and "printed w (Println w4 ignoreWarning) = [retryMessage, ignoreWarning]"
proof -
  have "stdout w4 = stdout w @ [retryMessage]"
    using downloadPackage_frame(1) [OF assms(1)] calculateChecksums_frame(1) [OF assms(2)]
      downloadPackage_frame(1) [OF assms(3)] calculateChecksums_frame(1) [OF assms(4)]
    by (simp add: stdout_Println)
  then show "printed w w4 = [retryMessage]"
    and "printed w (Println w4 ignoreWarning) = [retryMessage, ignoreWarning]"
    by (simp_all add: printed_def Println_def)
qed

subsection \<open>The paths through dataSourcePackageRead\<close>

lemma read_paths:
  assumes api: "PackagesReadExecute pc (namespace cfg) (repository cfg) (package_identifier cfg) = Inr pkg"
    and dl: "download cfg"
  shows "(\<exists>e w1.
            downloadPackage L (GetCdnUrl pkg) (download_dir cfg) pc False w = (Inl e, w1)
            \<and> dataSourcePackageRead L cfg d pc w = (Some e, setMetadata d cfg pkg, w1))
       \<or> (\<exists>p1 w1 e w2.
            downloadPackage L (GetCdnUrl pkg) (download_dir cfg) pc False w = (Inr p1, w1)
            \<and> calculateChecksums L p1 w1 = (Inl e, w2)
            \<and> dataSourcePackageRead L cfg d pc w = (Some e, afterDownload d cfg pkg p1, w2))
       \<or> (\<exists>p1 w1 c1 w2.
            downloadPackage L (GetCdnUrl pkg) (download_dir cfg) pc False w = (Inr p1, w1)
            \<and> calculateChecksums L p1 w1 = (Inr c1, w2)
            \<and> \<not> checksumsDiffer c1 pkg
            \<and> dataSourcePackageRead L cfg d pc w = (None, setLocalChecksums (afterDownload d cfg pkg p1) c1, w2))
       \<or> (\<exists>p1 w1 c1 w2 e w3.
            downloadPackage L (GetCdnUrl pkg) (download_dir cfg) pc False w = (Inr p1, w1)
            \<and> calculateChecksums L p1 w1 = (Inr c1, w2)
            \<and> checksumsDiffer c1 pkg
            \<and> downloadPackage L (GetCdnUrl pkg) (download_dir cfg) pc True w2 = (Inl e, w3)
            \<and> dataSourcePackageRead L cfg d pc w = (Some e, afterDownload d cfg pkg p1, w3))
       \<or> (\<exists>p1 w1 c1 w2 p2 w3 e w4.
            downloadPackage L (GetCdnUrl pkg) (download_dir cfg) pc False w = (Inr p1, w1)
            \<and> calculateChecksums L p1 w1 = (Inr c1, w2)
            \<and> checksumsDiffer c1 pkg
            \<and> downloadPackage L (GetCdnUrl pkg) (download_dir cfg) pc True w2 = (Inr p2, w3)
            \<and> calculateChecksums L p2 (Println w3 retryMessage) = (Inl e, w4)
            \<and> dataSourcePackageRead L cfg d pc w = (Some e, afterDownload d cfg pkg p1, w4))
       \<or> (\<exists>p1 w1 c1 w2 p2 w3 c2 w4.
            downloadPackage L (GetCdnUrl pkg) (download_dir cfg) pc False w = (Inr p1, w1)
            \<and> calculateChecksums L p1 w1 = (Inr c1, w2)
            \<and> checksumsDiffer c1 pkg
            \<and> downloadPackage L (GetCdnUrl pkg) (download_dir cfg) pc True w2 = (Inr p2, w3)
            \<and> calculateChecksums L p2 (Println w3 retryMessage) = (Inr c2, w4)
            \<and> \<not> checksumsDiffer c2 pkg
            \<and> dataSourcePackageRead L cfg d pc w = (None, setLocalChecksums (afterDownload d cfg pkg p1) c2, w4))
       \<or> (\<exists>p1 w1 c1 w2 p2 w3 c2 w4.
            downloadPackage L (GetCdnUrl pkg) (download_dir cfg) pc False w = (Inr p1, w1)
            \<and> calculateChecksums L p1 w1 = (Inr c1, w2)
            \<and> checksumsDiffer c1 pkg
            \<and> downloadPackage L (GetCdnUrl pkg) (download_dir cfg) pc True w2 = (Inr p2, w3)
            \<and> calculateChecksums L p2 (Println w3 retryMessage) = (Inr c2, w4)
            \<and> checksumsDiffer c2 pkg
            \<and> ignore_checksums cfg
            \<and> dataSourcePackageRead L cfg d pc w = (None, setLocalChecksums (setLocalChecksums (afterDownload d cfg pkg p1) c2) c2, Println w4 ignoreWarning))
       \<or> (\<exists>p1 w1 c1 w2 p2 w3 c2 w4.
            downloadPackage L (GetCdnUrl pkg) (download_dir cfg) pc False w = (Inr p1, w1)
            \<and> calculateChecksums L p1 w1 = (Inr c1, w2)
            \<and> checksumsDiffer c1 pkg
            \<and> downloadPackage L (GetCdnUrl pkg) (download_dir cfg) pc True w2 = (Inr p2, w3)
            \<and> calculateChecksums L p2 (Println w3 retryMessage) = (Inr c2, w4)
            \<and> checksumsDiffer c2 pkg
            \<and> \<not> ignore_checksums cfg
            \<and> dataSourcePackageRead L cfg d pc w = (Some (MismatchError (mismatchReport c2 pkg)), afterDownload d cfg pkg p1, w4))"
  by (simp add: dataSourcePackageRead_def api dl afterDownload_def Let_def split: sum.splits prod.splits)

lemma read_first_download_fails:
  assumes api: "PackagesReadExecute pc (namespace cfg) (repository cfg) (package_identifier cfg)
                  = Inr pkg"
    and dl: "download cfg"
    and first: "downloadPackage L (GetCdnUrl pkg) (download_dir cfg) pc False w = (Inl e, w1)"
  shows "dataSourcePackageRead L cfg d pc w = (Some e, setMetadata d cfg pkg, w1)"
  using first by (simp add: dataSourcePackageRead_def api dl Let_def)

lemma read_first_match:
  assumes api: "PackagesReadExecute pc (namespace cfg) (repository cfg) (package_identifier cfg)
                  = Inr pkg"
    and dl: "download cfg"
    and first: "firstAttempt L cfg pc pkg w = (Inr c1, w2)"
    and same: "\<not> checksumsDiffer c1 pkg"
  shows "dataSourcePackageRead L cfg d pc w
           = (None, setLocalChecksums (afterDownload d cfg pkg (outputPathOf L cfg pkg)) c1, w2)"
proof -
  from first obtain p1 w1
    where a: "downloadPackage L (GetCdnUrl pkg) (download_dir cfg) pc False w = (Inr p1, w1)"
      and b: "calculateChecksums L p1 w1 = (Inr c1, w2)"
    by (auto simp: firstAttempt_Inr)
  have p1: "p1 = outputPathOf L cfg pkg"
    using downloadPackage_Inr(1) [OF a] by (simp add: outputPathOf_def)
  show ?thesis
    using a b same
    by (simp add: dataSourcePackageRead_def api dl afterDownload_def Let_def flip: p1)
qed

lemma read_two_attempts:
  assumes api: "PackagesReadExecute pc (namespace cfg) (repository cfg) (package_identifier cfg)
                  = Inr pkg"
    and dl: "download cfg"
    and first: "firstAttempt L cfg pc pkg w = (Inr c1, w2)"
    and differ: "checksumsDiffer c1 pkg"
    and second: "secondAttempt L cfg pc pkg w2 = (Inr c2, w4)"
  shows "dataSourcePackageRead L cfg d pc w
           = (if checksumsDiffer c2 pkg
              then if ignore_checksums cfg
                   then (None,
                         setLocalChecksums
                           (setLocalChecksums
                              (afterDownload d cfg pkg (outputPathOf L cfg pkg)) c2) c2,
                         Println w4 ignoreWarning)
                   else (Some (MismatchError (mismatchReport c2 pkg)),
                         afterDownload d cfg pkg (outputPathOf L cfg pkg), w4)
              else (None,
                    setLocalChecksums (afterDownload d cfg pkg (outputPathOf L cfg pkg)) c2,
                    w4))"
proof -
  from first obtain p1 w1
    where a: "downloadPackage L (GetCdnUrl pkg) (download_dir cfg) pc False w = (Inr p1, w1)"
      and b: "calculateChecksums L p1 w1 = (Inr c1, w2)"
    by (auto simp: firstAttempt_Inr)
  from second obtain p2 w3
    where a2: "downloadPackage L (GetCdnUrl pkg) (download_dir cfg) pc True w2 = (Inr p2, w3)"
      and b2: "calculateChecksums L p2 (Println w3 retryMessage) = (Inr c2, w4)"
    by (auto simp: secondAttempt_Inr)
  have p1: "p1 = outputPathOf L cfg pkg"
    using downloadPackage_Inr(1) [OF a] by (simp add: outputPathOf_def)
  show ?thesis
    using a b differ a2 b2
    by (simp add: dataSourcePackageRead_def api dl afterDownload_def Let_def flip: p1)
qed

lemma read_second_fails:
  assumes api: "PackagesReadExecute pc (namespace cfg) (repository cfg) (package_identifier cfg)
                  = Inr pkg"
    and dl: "download cfg"
    and first: "firstAttempt L cfg pc pkg w = (Inr c1, w2)"
    and differ: "checksumsDiffer c1 pkg"
    and second: "secondAttempt L cfg pc pkg w2 = (Inl e, w3)"
  shows "dataSourcePackageRead L cfg d pc w
           = (Some e, afterDownload d cfg pkg (outputPathOf L cfg pkg), w3)"
proof -
  from first obtain p1 w1
    where a: "downloadPackage L (GetCdnUrl pkg) (download_dir cfg) pc False w = (Inr p1, w1)"
      and b: "calculateChecksums L p1 w1 = (Inr c1, w2)"
    by (auto simp: firstAttempt_Inr)
  have p1: "p1 = outputPathOf L cfg pkg"
    using downloadPackage_Inr(1) [OF a] by (simp add: outputPathOf_def)
  show ?thesis
    using a b differ second
    by (auto simp: dataSourcePackageRead_def api dl afterDownload_def Let_def secondAttempt_def
        simp flip: p1 split: prod.splits sum.splits)
qed

lemma error_return_cases:
  assumes run: "dataSourcePackageRead L cfg d pc w = (Some e, d', w')"
  shows "(PackagesReadExecute pc (namespace cfg) (repository cfg) (package_identifier cfg)
            = Inl e \<and> d' = d \<and> w' = w)
       \<or> (\<exists>pkg.
            PackagesReadExecute pc (namespace cfg) (repository cfg) (package_identifier cfg)
              = Inr pkg
            \<and> download cfg \<and> reportedDigests d' = expectedDigests pkg
            \<and> ((downloadPackage L (GetCdnUrl pkg) (download_dir cfg) pc False w = (Inl e, w')
                  \<and> d' = setMetadata d cfg pkg)
               \<or> (\<exists>p1 w1.
                     downloadPackage L (GetCdnUrl pkg) (download_dir cfg) pc False w
                       = (Inr p1, w1)
                     \<and> calculateChecksums L p1 w1 = (Inl e, w')
                     \<and> d' = afterDownload d cfg pkg p1)
               \<or> (\<exists>c1 w2.
                     firstAttempt L cfg pc pkg w = (Inr c1, w2) \<and> checksumsDiffer c1 pkg
                     \<and> secondAttempt L cfg pc pkg w2 = (Inl e, w')
                     \<and> d' = afterDownload d cfg pkg (outputPathOf L cfg pkg))
               \<or> (\<exists>c1 w2 c2.
                     firstAttempt L cfg pc pkg w = (Inr c1, w2) \<and> checksumsDiffer c1 pkg
                     \<and> secondAttempt L cfg pc pkg w2 = (Inr c2, w') \<and> checksumsDiffer c2 pkg
                     \<and> \<not> ignore_checksums cfg \<and> e = MismatchError (mismatchReport c2 pkg)
                     \<and> d' = afterDownload d cfg pkg (outputPathOf L cfg pkg))))"
proof (cases "PackagesReadExecute pc (namespace cfg) (repository cfg) (package_identifier cfg)")
  case (Inl e')
  with run show ?thesis by (simp add: dataSourcePackageRead_def)
next
  case api: (Inr pkg)
  have dl: "download cfg"
    using run api by (auto simp: dataSourcePackageRead_def Let_def split: if_splits)
  have meta: "reportedDigests (setMetadata d cfg pkg) = expectedDigests pkg"
    by (rule reportedDigests_setMetadata)
  have path: "p1 = outputPathOf L cfg pkg"
    if "downloadPackage L (GetCdnUrl pkg) (download_dir cfg) pc False w = (Inr p1, w1)"
    for p1 w1
    using downloadPackage_Inr(1) [OF that] by (simp add: outputPathOf_def)
  from read_paths [OF api dl, of L w d] show ?thesis
  proof (elim disjE exE conjE, goal_cases)
    case (1 e1 w1)
    with run api dl meta show ?case by auto
  next
    case (2 p1 w1 e1 w2)
    with run api dl show ?case by auto
  next
    case (3 p1 w1 c1 w2)
    with run show ?case by simp
  next
    case (4 p1 w1 c1 w2 e1 w3)
    have "firstAttempt L cfg pc pkg w = (Inr c1, w2)"
      using 4(1,2) by (auto simp: firstAttempt_Inr)
    moreover have "secondAttempt L cfg pc pkg w2 = (Inl e1, w3)"
      using 4(4) by (simp add: secondAttempt_def)
    ultimately show ?case
      using 4 run api dl path [OF 4(1)] by auto
  next
    case (5 p1 w1 c1 w2 p2 w3 e1 w4)
    have "firstAttempt L cfg pc pkg w = (Inr c1, w2)"
      using 5(1,2) by (auto simp: firstAttempt_Inr)
    moreover have "secondAttempt L cfg pc pkg w2 = (Inl e1, w4)"
      using 5(4,5) by (simp add: secondAttempt_def)
    ultimately show ?case
      using 5 run api dl path [OF 5(1)] by auto
  next
    case (6 p1 w1 c1 w2 p2 w3 c2 w4)
    with run show ?case by simp
  next
    case (7 p1 w1 c1 w2 p2 w3 c2 w4)
    with run show ?case by simp
  next
    case (8 p1 w1 c1 w2 p2 w3 c2 w4)
    have "firstAttempt L cfg pc pkg w = (Inr c1, w2)"
      using 8(1,2) by (auto simp: firstAttempt_Inr)
    moreover have "secondAttempt L cfg pc pkg w2 = (Inr c2, w4)"
      using 8(4,5) by (auto simp: secondAttempt_Inr)
    ultimately show ?case
      using 8 run api dl path [OF 8(1)] by auto
  qed
qed

lemma read_api_fails:
  assumes "PackagesReadExecute pc (namespace cfg) (repository cfg) (package_identifier cfg)
             = Inl e"
  shows "dataSourcePackageRead L cfg d pc w = (Some e, d, w)"
  using assms by (simp add: dataSourcePackageRead_def)

lemma read_first_digests_fail:
  assumes api: "PackagesReadExecute pc (namespace cfg) (repository cfg) (package_identifier cfg)
                  = Inr pkg"
    and dl: "download cfg"
    and first: "downloadPackage L (GetCdnUrl pkg) (download_dir cfg) pc False w = (Inr p1, w1)"
    and digests: "calculateChecksums L p1 w1 = (Inl e, v)"
  shows "dataSourcePackageRead L cfg d pc w = (Some e, afterDownload d cfg pkg p1, v)"
  using first digests by (simp add: dataSourcePackageRead_def api dl afterDownload_def Let_def)

lemma error_return_expected_digests:
  assumes api: "PackagesReadExecute pc (namespace cfg) (repository cfg) (package_identifier cfg)
                  = Inr pkg"
    and run: "dataSourcePackageRead L cfg d pc w = (Some e, d', w')"
  shows "reportedDigests d' = expectedDigests pkg"
  using error_return_cases [OF run] api by auto

lemma attrs_setMetadata_output_path:
  "attrs (setMetadata d cfg pkg) ''output_path'' = attrs d ''output_path''"
  by (simp add: setMetadata_def attrs_Set SetId_def)

lemma attrs_afterDownload:
  "attrs (afterDownload d cfg pkg p) ''output_path'' = Some (S p)"
  "attrs (afterDownload d cfg pkg p) ''output_directory'' = Some (S (download_dir cfg))"
  by (simp_all add: afterDownload_def attrs_Set)

lemma outcome_Verified_iff:
  "outcome cfg w (e, d', w') = Verified p obs \<longleftrightarrow>
     e = None \<and> download cfg \<and> ignoreWarning \<notin> set (printed w w')
     \<and> p = strAttr d' ''output_path'' \<and> obs = reportedDigests d'"
  by (auto simp: outcome_def split: option.splits error.splits)

lemma outcome_error_not_Verified: "outcome cfg w (Some e, d', w') \<noteq> Verified p obs"
  by (simp add: outcome_def split: error.splits)

lemma outcome_first_match:
  assumes api: "PackagesReadExecute pc (namespace cfg) (repository cfg) (package_identifier cfg)
                  = Inr pkg"
    and dl: "download cfg"
    and first: "firstAttempt L cfg pc pkg w = (Inr c1, w2)"
    and same: "\<not> checksumsDiffer c1 pkg"
  shows "outcome cfg w (dataSourcePackageRead L cfg d pc w)
           = Verified (outputPathOf L cfg pkg) c1"
  using firstAttempt_world(3) [OF first]
  by (simp add: read_first_match [OF api dl first same] outcome_def dl printed_def
      output_path_setLocalChecksums reportedDigests_setLocalChecksums)

lemma outcome_two_attempts:
  assumes api: "PackagesReadExecute pc (namespace cfg) (repository cfg) (package_identifier cfg)
                  = Inr pkg"
    and dl: "download cfg"
    and first: "firstAttempt L cfg pc pkg w = (Inr c1, w2)"
    and differ: "checksumsDiffer c1 pkg"
    and second: "secondAttempt L cfg pc pkg w2 = (Inr c2, w4)"
  shows "outcome cfg w (dataSourcePackageRead L cfg d pc w)
           = (if checksumsDiffer c2 pkg
              then if ignore_checksums cfg
                   then AcceptedWithMismatch (outputPathOf L cfg pkg) c2
                   else Failed (mismatchReport c2 pkg)
              else Verified (outputPathOf L cfg pkg) c2)"
proof -
  have "stdout w4 = stdout w @ [retryMessage]"
    using firstAttempt_world(3) [OF first] secondAttempt_world(3) [OF second] by simp
  then have "printed w w4 = [retryMessage]"
    and "printed w (Println w4 ignoreWarning) = [retryMessage, ignoreWarning]"
    by (simp_all add: printed_def Println_def)
  moreover have "ignoreWarning \<noteq> retryMessage"
    by (simp add: ignoreWarning_def retryMessage_def)
  ultimately show ?thesis
    by (simp add: read_two_attempts [OF api dl first differ second] outcome_def dl
        output_path_setLocalChecksums reportedDigests_setLocalChecksums)
qed

subsection \<open>The concrete setting, evaluated\<close>

lemmas demo_defs = demoCfg_def demoPc_def demoWorld_def demoData_def pkgOfEmpty_def
  pkgNoDigests_def demoPkg_def serveAlways_def serveStale_def serveStatus_def
  serveThenStatus_def GetCdnUrl_def GetChecksumMd5_def GetChecksumSha1_def
  GetChecksumSha256_def GetChecksumSha512_def orEmpty_def

lemma chunks_Nil: "chunks n [] = []"
  by (simp add: chunks.simps)

lemma chunks_single: "chunks copyBufSize [x] = [[x]]"
  by (simp add: chunks.simps copyBufSize_def)

lemma demo_digests_empty:
  "\<lparr>MD5 = hex_EncodeToString md5_of_empty, SHA1 = hex_EncodeToString sha1_of_empty,
    SHA256 = hex_EncodeToString sha256_of_empty,
    SHA512 = hex_EncodeToString sha512_of_empty\<rparr> = digestsOfEmpty"
  by (simp add: hex_EncodeToString_def hextable_def hexval_def digestsOfEmpty_def md5_of_empty_def
      sha1_of_empty_def sha256_of_empty_def sha512_of_empty_def)

lemma demo_digests_a:
  "\<lparr>MD5 = hex_EncodeToString md5_of_a, SHA1 = hex_EncodeToString sha1_of_a,
    SHA256 = hex_EncodeToString sha256_of_a,
    SHA512 = hex_EncodeToString sha512_of_a\<rparr> = digestsOfA"
  by (simp add: hex_EncodeToString_def hextable_def hexval_def digestsOfA_def md5_of_a_def
      sha1_of_a_def sha256_of_a_def sha512_of_a_def)

lemma demo_calculate_empty:
  assumes "files w p = Some []" and "\<not> openFails w p" and "\<not> readFails w p"
  shows "calculateChecksums demoLib p w = (Inr digestsOfEmpty, w\<lparr>opened := opened w @ [p]\<rparr>)"
  using assms
  by (simp add: calculateChecksums_def io_Copy_def chunks_Nil demoLib_def tableHasher_def
      demo_digests_empty)

lemma demo_calculate_a:
  assumes "files w p = Some [0x61]" and "\<not> openFails w p" and "\<not> readFails w p"
  shows "calculateChecksums demoLib p w = (Inr digestsOfA, w\<lparr>opened := opened w @ [p]\<rparr>)"
  using assms
  by (simp add: calculateChecksums_def io_Copy_def chunks_single multiWrite_def demoLib_def
      tableHasher_def demo_digests_a)

lemma demo_join: "go_path_Join ''/tmp'' ''pkg.tgz'' = ''/tmp/pkg.tgz''"
  by code_simp

lemma demo_path: "path_Join demoLib ''/tmp'' (path_Base demoLib demoUrl) = ''/tmp/pkg.tgz''"
  by (simp add: demoLib_def go_path_Base_def demoUrl_def demo_join)

lemma demo_download:
  "downloadPackage demoLib demoUrl ''/tmp'' pc b w =
    (let req = requestOf pc demoUrl (if b then Some (now w) else None);
         w1 = w\<lparr>requests := requests w @ [req]\<rparr> in
     case HTTPClient pc (length (requests w)) req of
       DoError m \<Rightarrow> (Inl (TransportError m), w1)
     | Response code body copyErr \<Rightarrow>
         if code \<noteq> 200 then (Inl (HTTPStatusError demoUrl code), w1)
         else if createFails w ''/tmp/pkg.tgz'' then (Inl (CreateError ''/tmp/pkg.tgz''), w1)
         else if copyErr
         then (Inl (CopyError ''/tmp/pkg.tgz''),
               w1\<lparr>files := (files w)(''/tmp/pkg.tgz'' \<mapsto> body)\<rparr>)
         else (Inr ''/tmp/pkg.tgz'', w1\<lparr>files := (files w)(''/tmp/pkg.tgz'' \<mapsto> body)\<rparr>))"
proof -
  have ok: "url_Parse_ok demoLib demoUrl" by (simp add: demoLib_def)
  show ?thesis
    by (simp add: downloadPackage_def ok demo_path requestOf_def Let_def
        split: http_result.splits)
qed

lemma demo_firstAttempt:
  assumes "HTTPClient pc 0 (requestOf pc demoUrl None) = Response 200 body False"
    and "GetCdnUrl pkg = demoUrl"
  shows "body = [] \<Longrightarrow>
           firstAttempt demoLib (demoCfg ig) pc pkg demoWorld
             = (Inr digestsOfEmpty, demoWorld1 pc body)"
    and "body = [0x61] \<Longrightarrow>
           firstAttempt demoLib (demoCfg ig) pc pkg demoWorld
             = (Inr digestsOfA, demoWorld1 pc body)"
  using assms
  by (simp_all add: firstAttempt_def demo_download demoCfg_def demoWorld_def
      demo_calculate_empty demo_calculate_a demoWorld1_def)

lemma demo_secondAttempt:
  assumes "HTTPClient pc 1 (requestOf pc demoUrl (Some 1700000000)) = Response 200 body False"
    and "GetCdnUrl pkg = demoUrl"
  shows "body = [] \<Longrightarrow>
           secondAttempt demoLib (demoCfg ig) pc pkg (demoWorld1 pc body1)
             = (Inr digestsOfEmpty, demoWorld2 pc body)"
    and "body = [0x61] \<Longrightarrow>
           secondAttempt demoLib (demoCfg ig) pc pkg (demoWorld1 pc body1)
             = (Inr digestsOfA, demoWorld2 pc body)"
  using assms
  by (simp_all add: secondAttempt_def demo_download demoCfg_def demoWorld_def
      demo_calculate_empty demo_calculate_a demoWorld1_def demoWorld2_def Println_def)

lemma demo_api:
  "PackagesReadExecute (demoPc pkg client) (namespace (demoCfg ig)) (repository (demoCfg ig))
     (package_identifier (demoCfg ig)) = Inr pkg"
  by (simp add: demoPc_def)

lemma demo_download_flag: "download (demoCfg ig)" "ignore_checksums (demoCfg ig) = ig"
  by (simp_all add: demoCfg_def)

lemma demo_url: "GetCdnUrl pkgOfEmpty = demoUrl" "GetCdnUrl pkgNoDigests = demoUrl"
  by (simp_all add: demo_defs)

lemma demo_outputPath:
  "outputPathOf demoLib (demoCfg ig) pkgOfEmpty = ''/tmp/pkg.tgz''"
  "outputPathOf demoLib (demoCfg ig) pkgNoDigests = ''/tmp/pkg.tgz''"
  by (simp_all add: outputPathOf_def demo_url demo_path demoCfg_def)

lemma demo_differ:
  "\<not> checksumsDiffer digestsOfEmpty pkgOfEmpty"
  "checksumsDiffer digestsOfA pkgOfEmpty"
  "checksumsDiffer digestsOfEmpty pkgNoDigests"
  by (simp_all add: checksumsDiffer_def digestsOfEmpty_def digestsOfA_def demo_defs)

lemma demo_strict_run:
  "dataSourcePackageRead demoLib (demoCfg False) demoData
     (demoPc pkgOfEmpty (serveAlways [0x61])) demoWorld
   = (Some (MismatchError (mismatchReport digestsOfA pkgOfEmpty)),
      afterDownload demoData (demoCfg False) pkgOfEmpty ''/tmp/pkg.tgz'',
      demoWorld2 (demoPc pkgOfEmpty (serveAlways [0x61])) [0x61])"
proof -
  let ?pc = "demoPc pkgOfEmpty (serveAlways [0x61])"
  have first: "firstAttempt demoLib (demoCfg False) ?pc pkgOfEmpty demoWorld
                 = (Inr digestsOfA, demoWorld1 ?pc [0x61])"
    by (rule demo_firstAttempt(2)) (simp_all add: demoPc_def serveAlways_def demo_url)
  have second: "secondAttempt demoLib (demoCfg False) ?pc pkgOfEmpty (demoWorld1 ?pc [0x61])
                  = (Inr digestsOfA, demoWorld2 ?pc [0x61])"
    by (rule demo_secondAttempt(2)) (simp_all add: demoPc_def serveAlways_def demo_url)
  show ?thesis
    using read_two_attempts [OF demo_api demo_download_flag(1) first demo_differ(2) second]
    by (simp add: demo_differ demo_outputPath demo_download_flag)
qed

lemma demo_absent_attempts:
  "firstAttempt demoLib (demoCfg ig) (demoPc pkgNoDigests (serveAlways [])) pkgNoDigests
     demoWorld
   = (Inr digestsOfEmpty, demoWorld1 (demoPc pkgNoDigests (serveAlways [])) [])"
  "secondAttempt demoLib (demoCfg ig) (demoPc pkgNoDigests (serveAlways [])) pkgNoDigests
     (demoWorld1 (demoPc pkgNoDigests (serveAlways [])) [])
   = (Inr digestsOfEmpty, demoWorld2 (demoPc pkgNoDigests (serveAlways [])) [])"
  by (rule demo_firstAttempt(1) demo_secondAttempt(1);
      simp add: demoPc_def serveAlways_def demo_url)+

lemma demo_absent_run:
  "dataSourcePackageRead demoLib (demoCfg False) demoData
     (demoPc pkgNoDigests (serveAlways [])) demoWorld
   = (Some (MismatchError (mismatchReport digestsOfEmpty pkgNoDigests)),
      afterDownload demoData (demoCfg False) pkgNoDigests ''/tmp/pkg.tgz'',
      demoWorld2 (demoPc pkgNoDigests (serveAlways [])) [])"
  using read_two_attempts [OF demo_api demo_download_flag(1) demo_absent_attempts(1)
      demo_differ(3) demo_absent_attempts(2)]
  by (simp add: demo_differ demo_outputPath demo_download_flag)

lemma demo_fetched2:
  "fetched demoWorld (demoWorld2 pc body)
     = [requestOf pc demoUrl None, requestOf pc demoUrl (Some 1700000000)]"
  by (simp add: fetched_def demoWorld_def demoWorld2_def)

lemma demo_partial_run:
  "dataSourcePackageRead demoLib (demoCfg False) demoData
     (demoPc pkgOfEmpty (serveThenStatus [0x61] 500)) demoWorld
   = (Some (HTTPStatusError demoUrl 500),
      afterDownload demoData (demoCfg False) pkgOfEmpty ''/tmp/pkg.tgz'',
      (demoWorld1 (demoPc pkgOfEmpty (serveThenStatus [0x61] 500)) [0x61])
        \<lparr>requests := [requestOf (demoPc pkgOfEmpty (serveThenStatus [0x61] 500)) demoUrl None,
                      requestOf (demoPc pkgOfEmpty (serveThenStatus [0x61] 500)) demoUrl
                        (Some 1700000000)]\<rparr>)"
proof -
  let ?pc = "demoPc pkgOfEmpty (serveThenStatus [0x61] 500)"
  have first: "firstAttempt demoLib (demoCfg False) ?pc pkgOfEmpty demoWorld
                 = (Inr digestsOfA, demoWorld1 ?pc [0x61])"
    by (rule demo_firstAttempt(2)) (simp_all add: demoPc_def serveThenStatus_def demo_url)
  have second: "secondAttempt demoLib (demoCfg False) ?pc pkgOfEmpty (demoWorld1 ?pc [0x61])
                  = (Inl (HTTPStatusError demoUrl 500),
                     (demoWorld1 ?pc [0x61])
                       \<lparr>requests := [requestOf ?pc demoUrl None,
                                     requestOf ?pc demoUrl (Some 1700000000)]\<rparr>)"
    by (simp add: secondAttempt_def demo_url demoCfg_def demo_download)
       (simp add: demoWorld1_def demoWorld_def demoPc_def serveThenStatus_def)
  show ?thesis
    using read_second_fails [OF demo_api demo_download_flag(1) first demo_differ(2) second]
    by (simp add: demo_outputPath)
qed

lemma demo_noMd5_run:
  "dataSourcePackageRead demoLib (demoCfg False) demoData
     (demoPc pkgNoMd5 (serveAlways [0x61])) demoWorld
   = (Some (MismatchError (mismatchReport digestsOfA pkgNoMd5)),
      afterDownload demoData (demoCfg False) pkgNoMd5 ''/tmp/pkg.tgz'',
      demoWorld2 (demoPc pkgNoMd5 (serveAlways [0x61])) [0x61])"
proof -
  let ?pc = "demoPc pkgNoMd5 (serveAlways [0x61])"
  have url: "GetCdnUrl pkgNoMd5 = demoUrl" by (simp add: pkgNoMd5_def demo_defs)
  have path: "outputPathOf demoLib (demoCfg False) pkgNoMd5 = ''/tmp/pkg.tgz''"
    by (simp add: outputPathOf_def url demo_path demoCfg_def)
  have differ: "checksumsDiffer digestsOfA pkgNoMd5"
    by (simp add: checksumsDiffer_def digestsOfA_def pkgNoMd5_def demo_defs)
  have first: "firstAttempt demoLib (demoCfg False) ?pc pkgNoMd5 demoWorld
                 = (Inr digestsOfA, demoWorld1 ?pc [0x61])"
    by (rule demo_firstAttempt(2)) (simp_all add: demoPc_def serveAlways_def url)
  have second: "secondAttempt demoLib (demoCfg False) ?pc pkgNoMd5 (demoWorld1 ?pc [0x61])
                  = (Inr digestsOfA, demoWorld2 ?pc [0x61])"
    by (rule demo_secondAttempt(2)) (simp_all add: demoPc_def serveAlways_def url)
  show ?thesis
    using read_two_attempts [OF demo_api demo_download_flag(1) first differ second]
    by (simp add: differ path demo_download_flag)
qed

section \<open>The claims\<close>

text \<open>
  C1.  Whenever a call ends \<open>Verified\<close>, every algorithm whose expected digest is
  present in the metadata has an observed digest equal to it under case-insensitive
  comparison.  The observed digests are the ones \<open>calculateChecksums\<close> returned for
  the attempt that ended the call.  (The code compares with \<^verbatim>\<open>!=\<close>, so the digests are
  even equal byte for byte.)
\<close>

theorem verified_only_if_digests_match:
  assumes api: "PackagesReadExecute pc (namespace cfg) (repository cfg) (package_identifier cfg)
                  = Inr pkg"
    and v: "outcome cfg w (dataSourcePackageRead L cfg d pc w) = Verified p obs"
    and present: "expected pkg alg = Some e"
  shows "equalFold (observed obs alg) e
       \<and> (\<exists>w'. firstAttempt L cfg pc pkg w = (Inr obs, w')
              \<or> (\<exists>c1 w2. firstAttempt L cfg pc pkg w = (Inr c1, w2)
                    \<and> secondAttempt L cfg pc pkg w2 = (Inr obs, w')))"
proof -
  obtain err d' w' where run: "dataSourcePackageRead L cfg d pc w = (err, d', w')"
    by (cases "dataSourcePackageRead L cfg d pc w") auto
  from v run have ok: "err = None" and dl: "download cfg"
    and quiet: "ignoreWarning \<notin> set (printed w w')" and obs: "obs = reportedDigests d'"
    by (simp_all add: outcome_Verified_iff)
  have "observed obs alg = e
      \<and> (firstAttempt L cfg pc pkg w = (Inr obs, w')
         \<or> (\<exists>c1 w2. firstAttempt L cfg pc pkg w = (Inr c1, w2)
               \<and> secondAttempt L cfg pc pkg w2 = (Inr obs, w')))"
    using read_paths [OF api dl, of L w d]
  proof (elim disjE exE conjE)
    fix p1 w1 c1 w2
    assume a: "downloadPackage L (GetCdnUrl pkg) (download_dir cfg) pc False w = (Inr p1, w1)"
      "calculateChecksums L p1 w1 = (Inr c1, w2)"
      and same: "\<not> checksumsDiffer c1 pkg"
      and r: "dataSourcePackageRead L cfg d pc w
             = (None, setLocalChecksums (afterDownload d cfg pkg p1) c1, w2)"
    from r run obs have "obs = c1" and "w' = w2"
      by (auto simp: reportedDigests_setLocalChecksums)
    with a same present show ?thesis
      by (auto simp: not_checksumsDiffer firstAttempt_Inr)
  next
    fix p1 w1 c1 w2 p2 w3 c2 w4
    assume a: "downloadPackage L (GetCdnUrl pkg) (download_dir cfg) pc False w = (Inr p1, w1)"
      "calculateChecksums L p1 w1 = (Inr c1, w2)"
      and a2: "downloadPackage L (GetCdnUrl pkg) (download_dir cfg) pc True w2 = (Inr p2, w3)"
      "calculateChecksums L p2 (Println w3 retryMessage) = (Inr c2, w4)"
      and same: "\<not> checksumsDiffer c2 pkg"
      and r: "dataSourcePackageRead L cfg d pc w
             = (None, setLocalChecksums (afterDownload d cfg pkg p1) c2, w4)"
    from r run obs have "obs = c2" and "w' = w4"
      by (auto simp: reportedDigests_setLocalChecksums)
    moreover have "firstAttempt L cfg pc pkg w = (Inr c1, w2)"
      using a by (auto simp: firstAttempt_Inr)
    moreover have "secondAttempt L cfg pc pkg w2 = (Inr c2, w4)"
      using a2 by (auto simp: secondAttempt_Inr)
    ultimately show ?thesis
      using same present by (auto simp: not_checksumsDiffer)
  next
    fix p1 w1 c1 w2 p2 w3 c2 w4
    assume a: "downloadPackage L (GetCdnUrl pkg) (download_dir cfg) pc False w = (Inr p1, w1)"
      "calculateChecksums L p1 w1 = (Inr c1, w2)"
      "downloadPackage L (GetCdnUrl pkg) (download_dir cfg) pc True w2 = (Inr p2, w3)"
      "calculateChecksums L p2 (Println w3 retryMessage) = (Inr c2, w4)"
      and r: "dataSourcePackageRead L cfg d pc w
             = (None, setLocalChecksums (setLocalChecksums (afterDownload d cfg pkg p1) c2) c2,
                Println w4 ignoreWarning)"
    from r run have "w' = Println w4 ignoreWarning" by simp
    with accepted_prints_warning(2) [OF a] quiet show ?thesis by simp
  qed (use run ok in auto)
  then show ?thesis by (auto simp: equalFold_refl)
qed

theorem verified_only_if_digests_match_witness:
  "outcome (demoCfg False) demoWorld
     (dataSourcePackageRead demoLib (demoCfg False) demoData
        (demoPc pkgOfEmpty (serveAlways [])) demoWorld)
     = Verified ''/tmp/pkg.tgz'' digestsOfEmpty
   \<and> expected pkgOfEmpty AlgMD5 = Some ''d41d8cd98f00b204e9800998ecf8427e''
   \<and> equalFold (observed digestsOfEmpty AlgMD5) ''d41d8cd98f00b204e9800998ecf8427e''"
proof -
  let ?pc = "demoPc pkgOfEmpty (serveAlways [])"
  have first: "firstAttempt demoLib (demoCfg False) ?pc pkgOfEmpty demoWorld
                 = (Inr digestsOfEmpty, demoWorld1 ?pc [])"
    by (rule demo_firstAttempt(1)) (simp_all add: demoPc_def serveAlways_def demo_url)
  have v: "outcome (demoCfg False) demoWorld
             (dataSourcePackageRead demoLib (demoCfg False) demoData ?pc demoWorld)
           = Verified ''/tmp/pkg.tgz'' digestsOfEmpty"
    using outcome_first_match [OF demo_api demo_download_flag(1) first demo_differ(1)]
    by (simp add: demo_outputPath)
  have present: "expected pkgOfEmpty AlgMD5 = Some ''d41d8cd98f00b204e9800998ecf8427e''"
    by (simp add: pkgOfEmpty_def demoPkg_def)
  show ?thesis
    using verified_only_if_digests_match [OF demo_api v present] v present by simp
qed

text \<open>
  C2 as stated fails.  The metadata holds none of the four digests and the server
  serves the empty file, whose digests are computed without error.  The first comparison
  finds four differences, a second request is issued, and in strict mode the call ends
  \<open>Failed\<close> after two requests instead of \<open>Verified\<close> after one.
\<close>

theorem absent_digests_counterexample:
  "ChecksumMd5 pkgNoDigests = None \<and> ChecksumSha1 pkgNoDigests = None
   \<and> ChecksumSha256 pkgNoDigests = None \<and> ChecksumSha512 pkgNoDigests = None
   \<and> outcome (demoCfg False) demoWorld
        (dataSourcePackageRead demoLib (demoCfg False) demoData
           (demoPc pkgNoDigests (serveAlways [])) demoWorld)
       = Failed (mismatchReport digestsOfEmpty pkgNoDigests)
   \<and> fetched demoWorld
        (snd (snd (dataSourcePackageRead demoLib (demoCfg False) demoData
           (demoPc pkgNoDigests (serveAlways [])) demoWorld)))
       = [requestOf (demoPc pkgNoDigests (serveAlways [])) demoUrl None,
          requestOf (demoPc pkgNoDigests (serveAlways [])) demoUrl (Some 1700000000)]"
  by (simp add: demo_absent_run demo_fetched2 outcome_def)
     (simp add: pkgNoDigests_def demoPkg_def)

text \<open>
  C2, as the code has it.  When the metadata holds none of the four digests, each
  expected digest is the empty string and is compared like any other.  A digest computed
  from a file is never empty, so a first attempt that succeeds is always followed by the
  second, cache-busting request, and the outcome is never \<open>Verified\<close>: when the second
  attempt succeeds too it is \<open>AcceptedWithMismatch\<close> if \<open>ignore_checksums\<close> is
  true and \<open>Failed\<close> if it is false.
\<close>

theorem absent_digests_force_retry:
  assumes api: "PackagesReadExecute pc (namespace cfg) (repository cfg) (package_identifier cfg)
                  = Inr pkg"
    and dl: "download cfg"
    and absent: "\<forall>alg. expected pkg alg = None"
    and nonempty: "\<forall>s. hSum (md5 L) s \<noteq> []"
    and first: "firstAttempt L cfg pc pkg w = (Inr c1, w2)"
    and run: "dataSourcePackageRead L cfg d pc w = (err, d', w')"
  shows "fetched w w' = [requestOf pc (GetCdnUrl pkg) None,
                         requestOf pc (GetCdnUrl pkg) (Some (now w))]
       \<and> (\<forall>p obs. outcome cfg w (err, d', w') \<noteq> Verified p obs)
       \<and> (\<forall>c2 w4. secondAttempt L cfg pc pkg w2 = (Inr c2, w4) \<longrightarrow>
            outcome cfg w (err, d', w')
              = (if ignore_checksums cfg
                 then AcceptedWithMismatch (outputPathOf L cfg pkg) c2
                 else Failed (mismatchReport c2 pkg)))"
proof -
  have md5: "ChecksumMd5 pkg = None" using absent [rule_format, of AlgMD5] by simp
  have differ1: "checksumsDiffer c1 pkg"
    by (rule absent_differ [OF md5 nonempty firstAttempt_MD5 [OF first]])
  obtain r w4 where second: "secondAttempt L cfg pc pkg w2 = (r, w4)"
    by (cases "secondAttempt L cfg pc pkg w2") auto
  have req: "requests w4 = requests w @ [requestOf pc (GetCdnUrl pkg) None,
                                         requestOf pc (GetCdnUrl pkg) (Some (now w))]"
    using secondAttempt_requests [OF firstAttempt_url_ok [OF first] second]
      firstAttempt_world(1,2) [OF first] by simp
  show ?thesis
  proof (cases r)
    case (Inl e)
    from read_second_fails [OF api dl first differ1 second [unfolded Inl], of d] run
    have "err = Some e" and "w' = w4" by simp_all
    with req second Inl show ?thesis
      by (simp add: fetched_def outcome_error_not_Verified)
  next
    case (Inr c2)
    note second' = second [unfolded Inr]
    have differ2: "checksumsDiffer c2 pkg"
      by (rule absent_differ [OF md5 nonempty secondAttempt_MD5 [OF second']])
    from read_two_attempts [OF api dl first differ1 second', of d] run differ2
    have w': "w' = w4 \<or> w' = Println w4 ignoreWarning"
      by (auto split: if_splits)
    have out: "outcome cfg w (err, d', w')
                 = (if ignore_checksums cfg
                    then AcceptedWithMismatch (outputPathOf L cfg pkg) c2
                    else Failed (mismatchReport c2 pkg))"
      using outcome_two_attempts [OF api dl first differ1 second', of d] differ2 run by simp
    from w' req have "fetched w w' = [requestOf pc (GetCdnUrl pkg) None,
                         requestOf pc (GetCdnUrl pkg) (Some (now w))]"
      by (auto simp: fetched_def Println_def)
    with out second' show ?thesis by auto
  qed
qed

theorem absent_digests_force_retry_witness:
  "fetched demoWorld (demoWorld2 (demoPc pkgNoDigests (serveAlways [])) [])
     = [requestOf (demoPc pkgNoDigests (serveAlways [])) demoUrl None,
        requestOf (demoPc pkgNoDigests (serveAlways [])) demoUrl (Some 1700000000)]
   \<and> outcome (demoCfg False) demoWorld
        (dataSourcePackageRead demoLib (demoCfg False) demoData
           (demoPc pkgNoDigests (serveAlways [])) demoWorld)
       = Failed (mismatchReport digestsOfEmpty pkgNoDigests)"
proof -
  have absent: "\<forall>alg. expected pkgNoDigests alg = None"
  proof
    fix alg show "expected pkgNoDigests alg = None"
      by (cases alg) (simp_all add: pkgNoDigests_def demoPkg_def)
  qed
  have nonempty: "\<forall>s. hSum (md5 demoLib) s \<noteq> []"
    by (simp add: demoLib_def tableHasher_def md5_of_empty_def md5_of_a_def)
  have now: "now demoWorld = 1700000000" by (simp add: demoWorld_def)
  show ?thesis
    using absent_digests_force_retry [OF demo_api demo_download_flag(1) absent nonempty
        demo_absent_attempts(1) demo_absent_run]
      demo_absent_attempts(2) [of False]
    by (simp add: demo_absent_run demo_url now demo_download_flag)
qed

text \<open>
  C3.  The report line should read \<open>Checksum mismatch (<algorithm>): expected=<expected>,
  got=<observed>\<close>.  The code passes the observed digest, the expected digest and the
  algorithm name to the three verbs in that order, so the observed digest lands in the
  parentheses and the algorithm name after \<open>got=\<close>.  Evaluated on the download of the
  one-byte file \<^verbatim>\<open>a\<close> against the metadata of the empty file, in strict mode.
\<close>

theorem report_line_swaps_fields:
  "checksumMismatchError ''0cc175b9c0f1b6a831c399e269772661''
     ''d41d8cd98f00b204e9800998ecf8427e'' ''MD5''
     = ''Checksum mismatch (0cc175b9c0f1b6a831c399e269772661): ''
       @ ''expected=d41d8cd98f00b204e9800998ecf8427e, got=MD5''
   \<and> fst (dataSourcePackageRead demoLib (demoCfg False) demoData
             (demoPc pkgOfEmpty (serveAlways [0x61])) demoWorld)
     = Some (MismatchError
         (''Checksum mismatch (0cc175b9c0f1b6a831c399e269772661): ''
          @ ''expected=d41d8cd98f00b204e9800998ecf8427e, got=MD5'' @ newline
          @ ''Checksum mismatch (86f7e437faa5a7fce15d1ddcb9eaeaea377667b8): ''
          @ ''expected=da39a3ee5e6b4b0d3255bfef95601890afd80709, got=SHA1'' @ newline
          @ ''Checksum mismatch (''
          @ ''ca978112ca1bbdcafac231b39a23dc4da786eff8147c4e72b9807785afee48bb): expected=''
          @ ''e3b0c44298fc1c149afbf4c8996fb92427ae41e4649b934ca495991b7852b855, got=SHA256''
          @ newline
          @ ''Checksum mismatch (''
          @ ''1f40fc92da241694750979ee6cf582f2d5d7d28e18335de05abc54d0560e0f53''
          @ ''02860c652bf08d560252aa5e74210546f369fbbbce8c12cfc7957b2652fe9a75): expected=''
          @ ''cf83e1357eefb8bdf1542850d66d8007d620e4050b5715dc83f4a921d36ce9ce''
          @ ''47d0d13c5d85f2b0ff8318d2877eec2f63b931bd47417a81a538327af927da3e, got=SHA512''
          @ newline))"
  by (simp add: demo_strict_run)
     (simp add: mismatchReport_def checksumMismatchError_def digestsOfA_def demo_defs newline_def)

text \<open>
  C4.  For every byte sequence \<open>bs\<close> held by a readable file, the single pass of
  \<open>calculateChecksums\<close> through the four accumulators returns exactly the four
  lowercase hexadecimal digests that MD5, SHA-1, SHA-256 and SHA-512 give when each is
  computed on its own over \<open>bs\<close>.  The hashes are those of the library; what is used of
  them is the contract of \<^verbatim>\<open>hash.Hash\<close>.
\<close>

theorem calculateChecksums_fan_out:
  assumes "hash_contract (md5 L)" and "hash_contract (sha1 L)"
    and "hash_contract (sha256 L)" and "hash_contract (sha512 L)"
    and "files w filePath = Some bs" and "\<not> openFails w filePath"
    and "\<not> readFails w filePath"
  shows "fst (calculateChecksums L filePath w) =
           Inr \<lparr>MD5 = hexdigest (md5 L) bs, SHA1 = hexdigest (sha1 L) bs,
                SHA256 = hexdigest (sha256 L) bs, SHA512 = hexdigest (sha512 L) bs\<rparr>
         \<and> set (hexdigest (md5 L) bs) \<subseteq> set ''0123456789abcdef''
         \<and> set (hexdigest (sha1 L) bs) \<subseteq> set ''0123456789abcdef''
         \<and> set (hexdigest (sha256 L) bs) \<subseteq> set ''0123456789abcdef''
         \<and> set (hexdigest (sha512 L) bs) \<subseteq> set ''0123456789abcdef''"
proof -
  have pos: "0 < copyBufSize" by (simp add: copyBufSize_def)
  have one: "foldl (hWrite h) (hNew h) (chunks copyBufSize bs) = hWrite h (hNew h) bs"
    if "hash_contract h" for h :: "'a hasher"
    using that by (simp add: foldl_hWrite concat_chunks [OF pos])
  have "fst (calculateChecksums L filePath w) =
           Inr \<lparr>MD5 = hexdigest (md5 L) bs, SHA1 = hexdigest (sha1 L) bs,
                SHA256 = hexdigest (sha256 L) bs, SHA512 = hexdigest (sha512 L) bs\<rparr>"
    using assms
    by (simp add: calculateChecksums_def io_Copy_def foldl_multiWrite one hexdigest_def)
  then show ?thesis
    by (simp only: hexdigest_def hex_EncodeToString_lowercase simp_thms)
qed

theorem calculateChecksums_fan_out_witness:
  "fst (calculateChecksums demoLib ''/tmp/pkg.tgz''
          (demoWorld\<lparr>files := [''/tmp/pkg.tgz'' \<mapsto> [0x61]]\<rparr>)) = Inr digestsOfA
   \<and> hexdigest (md5 demoLib) [0x61] = ''0cc175b9c0f1b6a831c399e269772661''"
proof -
  have c: "hash_contract (md5 demoLib)" "hash_contract (sha1 demoLib)"
    "hash_contract (sha256 demoLib)" "hash_contract (sha512 demoLib)"
    by (simp_all add: hash_contract_def demoLib_def tableHasher_def)
  have f: "files (demoWorld\<lparr>files := [''/tmp/pkg.tgz'' \<mapsto> [0x61]]\<rparr>) ''/tmp/pkg.tgz''
             = Some [0x61]"
    "\<not> openFails (demoWorld\<lparr>files := [''/tmp/pkg.tgz'' \<mapsto> [0x61]]\<rparr>) ''/tmp/pkg.tgz''"
    "\<not> readFails (demoWorld\<lparr>files := [''/tmp/pkg.tgz'' \<mapsto> [0x61]]\<rparr>) ''/tmp/pkg.tgz''"
    by (simp_all add: demoWorld_def)
  have h: "hexdigest (md5 demoLib) [0x61] = MD5 digestsOfA"
    "hexdigest (sha1 demoLib) [0x61] = SHA1 digestsOfA"
    "hexdigest (sha256 demoLib) [0x61] = SHA256 digestsOfA"
    "hexdigest (sha512 demoLib) [0x61] = SHA512 digestsOfA"
    using arg_cong [OF demo_digests_a, of MD5] arg_cong [OF demo_digests_a, of SHA1]
      arg_cong [OF demo_digests_a, of SHA256] arg_cong [OF demo_digests_a, of SHA512]
    by (simp_all add: hexdigest_def demoLib_def tableHasher_def)
  show ?thesis
    using calculateChecksums_fan_out [OF c f] h by (simp add: digestsOfA_def)
qed



text \<open>
  C6 as stated fails.  The metadata holds no MD5 digest, a SHA-1 digest that is not the
  one of the served file, and the SHA-256 and SHA-512 digests of the served file.  Both
  attempts download the file \<^verbatim>\<open>a\<close>, and in strict mode the call ends \<open>Failed\<close>.
  SHA-1 is the only algorithm whose expected and observed digests differ, yet the report
  has two lines: the first is for MD5, which has no expected digest, with nothing after
  \<open>expected=\<close>.
\<close>

theorem absent_digest_reported_counterexample:
  "ChecksumMd5 pkgNoMd5 = None
   \<and> ChecksumSha1 pkgNoMd5 = Some ''da39a3ee5e6b4b0d3255bfef95601890afd80709''
   \<and> SHA1 digestsOfA = ''86f7e437faa5a7fce15d1ddcb9eaeaea377667b8''
   \<and> ChecksumSha256 pkgNoMd5 = Some (SHA256 digestsOfA)
   \<and> ChecksumSha512 pkgNoMd5 = Some (SHA512 digestsOfA)
   \<and> outcome (demoCfg False) demoWorld
        (dataSourcePackageRead demoLib (demoCfg False) demoData
           (demoPc pkgNoMd5 (serveAlways [0x61])) demoWorld)
       = Failed
           (''Checksum mismatch (0cc175b9c0f1b6a831c399e269772661): expected=, got=MD5''
            @ [CHR 0x0A]
            @ ''Checksum mismatch (86f7e437faa5a7fce15d1ddcb9eaeaea377667b8): ''
            @ ''expected=da39a3ee5e6b4b0d3255bfef95601890afd80709, got=SHA1''
            @ [CHR 0x0A])"
  by (simp add: demo_noMd5_run outcome_def)
     (simp add: mismatchReport_def checksumMismatchError_def newline_def digestsOfA_def
        pkgNoMd5_def demo_defs)

text \<open>
  C6, as the code has it.  When both attempts succeed with digests that differ from the
  expected ones and \<open>ignore_checksums\<close> is false, the outcome is \<open>Failed\<close>.  Its
  report has one line, in the order MD5, SHA1, SHA256, SHA512, for exactly those
  algorithms whose observed digest is not the expected string, an absent expected digest
  being the empty string: an algorithm without an expected digest gets a line whenever
  its observed digest is not empty, and an algorithm whose two strings are equal has no
  line.  A line carries the observed digest, the expected digest after \<open>expected=\<close>
  (nothing for an absent one) and the name of the algorithm, and ends with a newline.
\<close>

theorem failed_report_lists_differing:
  assumes api: "PackagesReadExecute pc (namespace cfg) (repository cfg) (package_identifier cfg)
                  = Inr pkg"
    and dl: "download cfg"
    and first: "firstAttempt L cfg pc pkg w = (Inr c1, w2)"
    and differ1: "checksumsDiffer c1 pkg"
    and second: "secondAttempt L cfg pc pkg w2 = (Inr c2, w4)"
    and differ2: "checksumsDiffer c2 pkg"
    and strict: "\<not> ignore_checksums cfg"
  shows "outcome cfg w (dataSourcePackageRead L cfg d pc w)
           = Failed (concat (map
               (\<lambda>alg. ''Checksum mismatch ('' @ observed c2 alg @ ''): expected=''
                       @ (case expected pkg alg of None \<Rightarrow> [] | Some e \<Rightarrow> e)
                       @ '', got='' @ algorithmName alg @ [CHR 0x0A])
               (filter
                  (\<lambda>alg. case expected pkg alg of None \<Rightarrow> observed c2 alg \<noteq> []
                                                | Some e \<Rightarrow> observed c2 alg \<noteq> e)
                  [AlgMD5, AlgSHA1, AlgSHA256, AlgSHA512])))"
  using outcome_two_attempts [OF api dl first differ1 second] differ2 strict
  by (simp only: mismatchReport_explicit if_True if_False)

theorem failed_report_lists_differing_witness:
  "outcome (demoCfg False) demoWorld
     (dataSourcePackageRead demoLib (demoCfg False) demoData
        (demoPc (pkgNoMd5\<lparr>ChecksumMd5 := Some ''0cc175b9c0f1b6a831c399e269772661''\<rparr>)
           (serveAlways [0x61])) demoWorld)
   = Failed
       (''Checksum mismatch (86f7e437faa5a7fce15d1ddcb9eaeaea377667b8): ''
        @ ''expected=da39a3ee5e6b4b0d3255bfef95601890afd80709, got=SHA1'' @ [CHR 0x0A])"
proof -
  let ?pkg = "pkgNoMd5\<lparr>ChecksumMd5 := Some ''0cc175b9c0f1b6a831c399e269772661''\<rparr>"
  let ?pc = "demoPc ?pkg (serveAlways [0x61])"
  have url: "GetCdnUrl ?pkg = demoUrl" by (simp add: pkgNoMd5_def demo_defs)
  have first: "firstAttempt demoLib (demoCfg False) ?pc ?pkg demoWorld
                 = (Inr digestsOfA, demoWorld1 ?pc [0x61])"
    by (rule demo_firstAttempt(2)) (simp_all add: demoPc_def serveAlways_def url)
  have second: "secondAttempt demoLib (demoCfg False) ?pc ?pkg (demoWorld1 ?pc [0x61])
                  = (Inr digestsOfA, demoWorld2 ?pc [0x61])"
    by (rule demo_secondAttempt(2)) (simp_all add: demoPc_def serveAlways_def url)
  have differ: "checksumsDiffer digestsOfA ?pkg"
    by (simp add: checksumsDiffer_def digestsOfA_def pkgNoMd5_def demo_defs)
  have strict: "\<not> ignore_checksums (demoCfg False)" by (simp add: demoCfg_def)
  show ?thesis
    using failed_report_lists_differing
      [OF demo_api demo_download_flag(1) first differ second differ strict]
    by (simp add: digestsOfA_def pkgNoMd5_def demoPkg_def)
qed

text \<open>
  C7.  When both attempts succeed with digests that differ from the expected ones and
  \<open>ignore_checksums\<close> is true, the call returns no error, the outcome is
  \<open>AcceptedWithMismatch\<close>, and the digests left in the checksum fields are the ones
  computed from the file of the second download, which are not the expected ones.
\<close>

theorem accepted_reports_observed:
  assumes api: "PackagesReadExecute pc (namespace cfg) (repository cfg) (package_identifier cfg)
                  = Inr pkg"
    and dl: "download cfg"
    and first: "firstAttempt L cfg pc pkg w = (Inr c1, w2)"
    and differ1: "checksumsDiffer c1 pkg"
    and second: "secondAttempt L cfg pc pkg w2 = (Inr c2, w4)"
    and differ2: "checksumsDiffer c2 pkg"
    and lenient: "ignore_checksums cfg"
  shows "fst (dataSourcePackageRead L cfg d pc w) = None
       \<and> outcome cfg w (dataSourcePackageRead L cfg d pc w)
           = AcceptedWithMismatch (outputPathOf L cfg pkg) c2
       \<and> reportedDigests (fst (snd (dataSourcePackageRead L cfg d pc w))) = c2
       \<and> c2 \<noteq> expectedDigests pkg"
proof -
  have "c2 \<noteq> expectedDigests pkg"
    using differ2 by (auto simp: checksumsDiffer_def expectedDigests_def)
  then show ?thesis
    using outcome_two_attempts [OF api dl first differ1 second, of d] differ2 lenient
    by (simp add: read_two_attempts [OF api dl first differ1 second]
        reportedDigests_setLocalChecksums)
qed

theorem accepted_reports_observed_witness:
  "outcome (demoCfg True) demoWorld
     (dataSourcePackageRead demoLib (demoCfg True) demoData
        (demoPc pkgOfEmpty (serveAlways [0x61])) demoWorld)
     = AcceptedWithMismatch ''/tmp/pkg.tgz'' digestsOfA
   \<and> reportedDigests
       (fst (snd (dataSourcePackageRead demoLib (demoCfg True) demoData
          (demoPc pkgOfEmpty (serveAlways [0x61])) demoWorld))) = digestsOfA
   \<and> digestsOfA \<noteq> expectedDigests pkgOfEmpty"
proof -
  let ?pc = "demoPc pkgOfEmpty (serveAlways [0x61])"
  have first: "firstAttempt demoLib (demoCfg True) ?pc pkgOfEmpty demoWorld
                 = (Inr digestsOfA, demoWorld1 ?pc [0x61])"
    by (rule demo_firstAttempt(2)) (simp_all add: demoPc_def serveAlways_def demo_url)
  have second: "secondAttempt demoLib (demoCfg True) ?pc pkgOfEmpty (demoWorld1 ?pc [0x61])
                  = (Inr digestsOfA, demoWorld2 ?pc [0x61])"
    by (rule demo_secondAttempt(2)) (simp_all add: demoPc_def serveAlways_def demo_url)
  have lenient: "ignore_checksums (demoCfg True)" by (simp add: demoCfg_def)
  show ?thesis
    using accepted_reports_observed
      [OF demo_api demo_download_flag(1) first demo_differ(2) second demo_differ(2) lenient]
    by (simp add: demo_outputPath)
qed

text \<open>
  C8 as stated fails.  The server answers the first request with the status 204, which
  is in the 2xx range; \<open>downloadPackage\<close> returns the status error for it and writes no
  file.
\<close>

theorem status_204_counterexample:
  "(200::int) \<le> 204 \<and> (204::int) < 300
   \<and> fst (downloadPackage demoLib demoUrl ''/tmp'' (demoPc pkgOfEmpty (serveStatus 204)) False
          demoWorld)
       = Inl (HTTPStatusError demoUrl 204)
   \<and> files (snd (downloadPackage demoLib demoUrl ''/tmp''
          (demoPc pkgOfEmpty (serveStatus 204)) False demoWorld)) ''/tmp/pkg.tgz'' = None"
  by (simp add: demo_download demoPc_def serveStatus_def demoWorld_def)

text \<open>
  C8, as the code has it.  A download attempt fails with the HTTP status error exactly
  when the client returned a response whose status code is not 200; 200 is the only code
  that goes on to the copy of the body.  When the first attempt of a call fails so, the
  call returns that error at once: the one request is the only one issued, no file is
  opened for its digests, so nothing is compared, and nothing is printed.
\<close>

theorem status_error_iff_not_200:
  "(fst (downloadPackage L u dir pc b w) = Inl (HTTPStatusError u' code) \<longleftrightarrow>
      u' = u \<and> url_Parse_ok L u \<and> code \<noteq> 200
      \<and> (\<exists>body copyErr.
            HTTPClient pc (length (requests w))
              (requestOf pc u (if b then Some (now w) else None)) = Response code body copyErr))
   \<and> (PackagesReadExecute pc (namespace cfg) (repository cfg) (package_identifier cfg) = Inr pkg
      \<and> download cfg
      \<and> fst (downloadPackage L (GetCdnUrl pkg) (download_dir cfg) pc False w)
          = Inl (HTTPStatusError u' code)
      \<longrightarrow> fst (dataSourcePackageRead L cfg d pc w) = Some (HTTPStatusError u' code)
          \<and> fetched w (snd (snd (dataSourcePackageRead L cfg d pc w)))
              = [requestOf pc (GetCdnUrl pkg) None]
          \<and> digested w (snd (snd (dataSourcePackageRead L cfg d pc w))) = []
          \<and> printed w (snd (snd (dataSourcePackageRead L cfg d pc w))) = [])"
proof (intro conjI impI)
  show "fst (downloadPackage L u dir pc b w) = Inl (HTTPStatusError u' code) \<longleftrightarrow>
      u' = u \<and> url_Parse_ok L u \<and> code \<noteq> 200
      \<and> (\<exists>body copyErr.
            HTTPClient pc (length (requests w))
              (requestOf pc u (if b then Some (now w) else None)) = Response code body copyErr)"
    by (rule downloadPackage_status_error_iff)
next
  assume h: "PackagesReadExecute pc (namespace cfg) (repository cfg) (package_identifier cfg)
               = Inr pkg
      \<and> download cfg
      \<and> fst (downloadPackage L (GetCdnUrl pkg) (download_dir cfg) pc False w)
          = Inl (HTTPStatusError u' code)"
  obtain w1 where first: "downloadPackage L (GetCdnUrl pkg) (download_dir cfg) pc False w
                            = (Inl (HTTPStatusError u' code), w1)"
    using h by (cases "downloadPackage L (GetCdnUrl pkg) (download_dir cfg) pc False w") auto
  have run: "dataSourcePackageRead L cfg d pc w
               = (Some (HTTPStatusError u' code), setMetadata d cfg pkg, w1)"
    using h read_first_download_fails [OF _ _ first] by simp
  note w1 = downloadPackage_status_error_world [OF first]
  show "fst (dataSourcePackageRead L cfg d pc w) = Some (HTTPStatusError u' code)"
    and "fetched w (snd (snd (dataSourcePackageRead L cfg d pc w)))
           = [requestOf pc (GetCdnUrl pkg) None]"
    and "digested w (snd (snd (dataSourcePackageRead L cfg d pc w))) = []"
    and "printed w (snd (snd (dataSourcePackageRead L cfg d pc w))) = []"
    by (simp_all add: run w1 fetched_def digested_def printed_def)
qed

theorem status_error_iff_not_200_witness:
  "fst (dataSourcePackageRead demoLib (demoCfg False) demoData
          (demoPc pkgOfEmpty (serveStatus 404)) demoWorld)
     = Some (HTTPStatusError demoUrl 404)
   \<and> fetched demoWorld
        (snd (snd (dataSourcePackageRead demoLib (demoCfg False) demoData
           (demoPc pkgOfEmpty (serveStatus 404)) demoWorld)))
       = [requestOf (demoPc pkgOfEmpty (serveStatus 404)) demoUrl None]
   \<and> digested demoWorld
        (snd (snd (dataSourcePackageRead demoLib (demoCfg False) demoData
           (demoPc pkgOfEmpty (serveStatus 404)) demoWorld))) = []"
proof -
  let ?pc = "demoPc pkgOfEmpty (serveStatus 404)"
  have first: "fst (downloadPackage demoLib (GetCdnUrl pkgOfEmpty)
                      (download_dir (demoCfg False)) ?pc False demoWorld)
                 = Inl (HTTPStatusError demoUrl 404)"
    by (simp add: demo_url demoCfg_def demo_download demoPc_def serveStatus_def)
  show ?thesis
    using status_error_iff_not_200 [of demoLib demoUrl "''/tmp''" ?pc False demoWorld
        demoUrl 404 "demoCfg False" pkgOfEmpty demoData]
      demo_api [of pkgOfEmpty "serveStatus 404" False] demo_download_flag(1) [of False] first
    by (simp add: demo_url)
qed

text \<open>
  C9 as stated fails.  The first download serves the one-byte file \<^verbatim>\<open>a\<close> where the
  metadata expects the empty file, and the server answers the retry with the status 500.
  The call returns the status error, and the resource data, which held no output path
  before the call, holds the path and the directory of the first download.
\<close>

theorem partial_fields_counterexample:
  "fst (dataSourcePackageRead demoLib (demoCfg False) demoData
          (demoPc pkgOfEmpty (serveThenStatus [0x61] 500)) demoWorld)
     = Some (HTTPStatusError demoUrl 500)
   \<and> attrs demoData ''output_path'' = None
   \<and> attrs (fst (snd (dataSourcePackageRead demoLib (demoCfg False) demoData
          (demoPc pkgOfEmpty (serveThenStatus [0x61] 500)) demoWorld))) ''output_path''
       = Some (S ''/tmp/pkg.tgz'')
   \<and> attrs (fst (snd (dataSourcePackageRead demoLib (demoCfg False) demoData
          (demoPc pkgOfEmpty (serveThenStatus [0x61] 500)) demoWorld))) ''output_directory''
       = Some (S ''/tmp'')"
  by (simp add: demo_partial_run)
     (simp add: afterDownload_def attrs_Set demoData_def demoCfg_def)

text \<open>
  C9, as the code has it.  Every fatal error ends the call at the step that failed: the
  call returns that step's error and the world is as that step left it, so no fetch,
  digest computation or print follows.  This holds for a failing metadata lookup, a
  failing first download, failing digests of the first file, a failing second download
  and failing digests of the second file.  What was written before the failing step
  stays written: nothing when the lookup failed; the metadata fields and the id after
  it; the output path and directory too once the first download has succeeded.  On every
  error return after the lookup the checksum fields hold the expected digests of the
  metadata, never observed ones.
\<close>

theorem fatal_error_aborts_at_failing_step:
  "(PackagesReadExecute pc (namespace cfg) (repository cfg) (package_identifier cfg) = Inl e
      \<longrightarrow> dataSourcePackageRead L cfg d pc w = (Some e, d, w))
   \<and> (PackagesReadExecute pc (namespace cfg) (repository cfg) (package_identifier cfg)
         = Inr pkg \<and> download cfg
      \<longrightarrow> (downloadPackage L (GetCdnUrl pkg) (download_dir cfg) pc False w = (Inl e, w1)
             \<longrightarrow> dataSourcePackageRead L cfg d pc w = (Some e, setMetadata d cfg pkg, w1))
          \<and> (downloadPackage L (GetCdnUrl pkg) (download_dir cfg) pc False w = (Inr p1, w1)
               \<and> calculateChecksums L p1 w1 = (Inl e, v)
             \<longrightarrow> dataSourcePackageRead L cfg d pc w
                   = (Some e, afterDownload d cfg pkg p1, v))
          \<and> (firstAttempt L cfg pc pkg w = (Inr c1, w2) \<and> checksumsDiffer c1 pkg
             \<longrightarrow> (downloadPackage L (GetCdnUrl pkg) (download_dir cfg) pc True w2
                      = (Inl e, w3)
                    \<longrightarrow> dataSourcePackageRead L cfg d pc w
                          = (Some e, afterDownload d cfg pkg (outputPathOf L cfg pkg), w3))
                 \<and> (downloadPackage L (GetCdnUrl pkg) (download_dir cfg) pc True w2
                      = (Inr p2, w3)
                      \<and> calculateChecksums L p2 (Println w3 retryMessage) = (Inl e, w4)
                    \<longrightarrow> dataSourcePackageRead L cfg d pc w
                          = (Some e, afterDownload d cfg pkg (outputPathOf L cfg pkg), w4)))
          \<and> (\<forall>e' d' w'. dataSourcePackageRead L cfg d pc w = (Some e', d', w')
                \<longrightarrow> reportedDigests d' = expectedDigests pkg))
   \<and> attrs (setMetadata d cfg pkg) ''output_path'' = attrs d ''output_path''
   \<and> attrs (afterDownload d cfg pkg p) ''output_path'' = Some (S p)
   \<and> attrs (afterDownload d cfg pkg p) ''output_directory'' = Some (S (download_dir cfg))"
proof (intro conjI impI allI; (elim conjE)?)
  assume "PackagesReadExecute pc (namespace cfg) (repository cfg) (package_identifier cfg)
            = Inl e"
  then show "dataSourcePackageRead L cfg d pc w = (Some e, d, w)"
    by (rule read_api_fails)
next
  assume api: "PackagesReadExecute pc (namespace cfg) (repository cfg) (package_identifier cfg)
                 = Inr pkg"
    and dl: "download cfg"
  {
    assume "downloadPackage L (GetCdnUrl pkg) (download_dir cfg) pc False w = (Inl e, w1)"
    then show "dataSourcePackageRead L cfg d pc w = (Some e, setMetadata d cfg pkg, w1)"
      by (rule read_first_download_fails [OF api dl])
  next
    assume "downloadPackage L (GetCdnUrl pkg) (download_dir cfg) pc False w = (Inr p1, w1)"
      and "calculateChecksums L p1 w1 = (Inl e, v)"
    then show "dataSourcePackageRead L cfg d pc w = (Some e, afterDownload d cfg pkg p1, v)"
      by (rule read_first_digests_fail [OF api dl])
  next
    assume first: "firstAttempt L cfg pc pkg w = (Inr c1, w2)"
      and differ: "checksumsDiffer c1 pkg"
    {
      assume "downloadPackage L (GetCdnUrl pkg) (download_dir cfg) pc True w2 = (Inl e, w3)"
      then have "secondAttempt L cfg pc pkg w2 = (Inl e, w3)"
        by (simp add: secondAttempt_def)
      then show "dataSourcePackageRead L cfg d pc w
                   = (Some e, afterDownload d cfg pkg (outputPathOf L cfg pkg), w3)"
        by (rule read_second_fails [OF api dl first differ])
    next
      assume "downloadPackage L (GetCdnUrl pkg) (download_dir cfg) pc True w2 = (Inr p2, w3)"
        and "calculateChecksums L p2 (Println w3 retryMessage) = (Inl e, w4)"
      then have "secondAttempt L cfg pc pkg w2 = (Inl e, w4)"
        by (simp add: secondAttempt_def)
      then show "dataSourcePackageRead L cfg d pc w
                   = (Some e, afterDownload d cfg pkg (outputPathOf L cfg pkg), w4)"
        by (rule read_second_fails [OF api dl first differ])
    }
  next
    fix e' d' w'
    assume "dataSourcePackageRead L cfg d pc w = (Some e', d', w')"
    then show "reportedDigests d' = expectedDigests pkg"
      by (rule error_return_expected_digests [OF api])
  }
next
  show "attrs (setMetadata d cfg pkg) ''output_path'' = attrs d ''output_path''"
    by (rule attrs_setMetadata_output_path)
  show "attrs (afterDownload d cfg pkg p) ''output_path'' = Some (S p)"
    and "attrs (afterDownload d cfg pkg p) ''output_directory'' = Some (S (download_dir cfg))"
    by (rule attrs_afterDownload)+
qed


theorem fatal_error_aborts_at_failing_step_witness:
  "dataSourcePackageRead demoLib (demoCfg False) demoData
     (demoPc pkgOfEmpty (serveStatus 404)) demoWorld
   = (Some (HTTPStatusError demoUrl 404), setMetadata demoData (demoCfg False) pkgOfEmpty,
      demoWorld\<lparr>requests := [requestOf (demoPc pkgOfEmpty (serveStatus 404)) demoUrl None]\<rparr>)
   \<and> dataSourcePackageRead demoLib (demoCfg False) demoData
       (demoPc pkgOfEmpty (serveAlways [])) (demoWorld\<lparr>openFails := (\<lambda>p. True)\<rparr>)
     = (Some (OpenError ''/tmp/pkg.tgz''),
        afterDownload demoData (demoCfg False) pkgOfEmpty ''/tmp/pkg.tgz'',
        demoWorld\<lparr>openFails := (\<lambda>p. True),
          requests := [requestOf (demoPc pkgOfEmpty (serveAlways [])) demoUrl None],
          files := [''/tmp/pkg.tgz'' \<mapsto> []]\<rparr>)
   \<and> dataSourcePackageRead demoLib (demoCfg False) demoData
       (demoPc pkgOfEmpty (serveThenStatus [0x61] 500)) demoWorld
     = (Some (HTTPStatusError demoUrl 500),
        afterDownload demoData (demoCfg False) pkgOfEmpty ''/tmp/pkg.tgz'',
        (demoWorld1 (demoPc pkgOfEmpty (serveThenStatus [0x61] 500)) [0x61])
          \<lparr>requests :=
             [requestOf (demoPc pkgOfEmpty (serveThenStatus [0x61] 500)) demoUrl None,
              requestOf (demoPc pkgOfEmpty (serveThenStatus [0x61] 500)) demoUrl
                (Some 1700000000)]\<rparr>)"
proof -
  let ?cfg = "demoCfg False"
  let ?pa = "demoPc pkgOfEmpty (serveStatus 404)"
  let ?pb = "demoPc pkgOfEmpty (serveAlways [])"
  let ?pc = "demoPc pkgOfEmpty (serveThenStatus [0x61] 500)"
  let ?wa = "demoWorld\<lparr>requests := [requestOf ?pa demoUrl None]\<rparr>"
  let ?wz = "demoWorld\<lparr>openFails := (\<lambda>p. True)\<rparr>"
  let ?wb = "demoWorld\<lparr>openFails := (\<lambda>p. True), requests := [requestOf ?pb demoUrl None],
               files := [''/tmp/pkg.tgz'' \<mapsto> []]\<rparr>"
  let ?wc = "(demoWorld1 ?pc [0x61])
               \<lparr>requests := [requestOf ?pc demoUrl None,
                             requestOf ?pc demoUrl (Some 1700000000)]\<rparr>"
  have a: "downloadPackage demoLib (GetCdnUrl pkgOfEmpty) (download_dir ?cfg) ?pa False
             demoWorld = (Inl (HTTPStatusError demoUrl 404), ?wa)"
    by (simp add: demo_url demoCfg_def demo_download)
       (simp add: demoPc_def serveStatus_def demoWorld_def)
  have b1: "downloadPackage demoLib (GetCdnUrl pkgOfEmpty) (download_dir ?cfg) ?pb False ?wz
              = (Inr ''/tmp/pkg.tgz'', ?wb)"
    by (simp add: demo_url demoCfg_def demo_download)
       (simp add: demoPc_def serveAlways_def demoWorld_def)
  have b2: "calculateChecksums demoLib ''/tmp/pkg.tgz'' ?wb = (Inl (OpenError ''/tmp/pkg.tgz''), ?wb)"
    by (simp add: calculateChecksums_def demoWorld_def)
  have c1: "firstAttempt demoLib ?cfg ?pc pkgOfEmpty demoWorld
              = (Inr digestsOfA, demoWorld1 ?pc [0x61])"
    by (rule demo_firstAttempt(2)) (simp_all add: demoPc_def serveThenStatus_def demo_url)
  have c2: "downloadPackage demoLib (GetCdnUrl pkgOfEmpty) (download_dir ?cfg) ?pc True
              (demoWorld1 ?pc [0x61]) = (Inl (HTTPStatusError demoUrl 500), ?wc)"
    by (simp add: demo_url demoCfg_def demo_download)
       (simp add: demoPc_def serveThenStatus_def demoWorld_def demoWorld1_def)
  have ra: "dataSourcePackageRead demoLib ?cfg demoData ?pa demoWorld
              = (Some (HTTPStatusError demoUrl 404), setMetadata demoData ?cfg pkgOfEmpty, ?wa)"
    using fatal_error_aborts_at_failing_step
      [where L = demoLib and cfg = ?cfg and d = demoData and pc = ?pa and w = demoWorld
         and pkg = pkgOfEmpty and e = "HTTPStatusError demoUrl 404" and ?w1.0 = ?wa]
      demo_api [of pkgOfEmpty "serveStatus 404" False] demo_download_flag(1) [of False] a
    by simp
  have rb: "dataSourcePackageRead demoLib ?cfg demoData ?pb ?wz
              = (Some (OpenError ''/tmp/pkg.tgz''),
                 afterDownload demoData ?cfg pkgOfEmpty ''/tmp/pkg.tgz'', ?wb)"
    using fatal_error_aborts_at_failing_step
      [where L = demoLib and cfg = ?cfg and d = demoData and pc = ?pb and w = ?wz
         and pkg = pkgOfEmpty and e = "OpenError ''/tmp/pkg.tgz''" and ?w1.0 = ?wb
         and ?p1.0 = "''/tmp/pkg.tgz''" and v = ?wb]
      demo_api [of pkgOfEmpty "serveAlways []" False] demo_download_flag(1) [of False] b1 b2
    by simp
  have rc: "dataSourcePackageRead demoLib ?cfg demoData ?pc demoWorld
              = (Some (HTTPStatusError demoUrl 500),
                 afterDownload demoData ?cfg pkgOfEmpty ''/tmp/pkg.tgz'', ?wc)"
    using fatal_error_aborts_at_failing_step
      [where L = demoLib and cfg = ?cfg and d = demoData and pc = ?pc and w = demoWorld
         and pkg = pkgOfEmpty and e = "HTTPStatusError demoUrl 500"
         and ?c1.0 = digestsOfA and ?w2.0 = "demoWorld1 ?pc [0x61]" and ?w3.0 = ?wc]
      demo_api [of pkgOfEmpty "serveThenStatus [0x61] 500" False]
      demo_download_flag(1) [of False] c1 c2 demo_differ(2)
    by (simp add: demo_outputPath)
  show ?thesis
    by (simp only: ra rb rc simp_thms)
qed

text \<open>
  C10.  A download that succeeds returns the path \<^verbatim>\<open>path.Join(downloadDir,
  path.Base(downloadUrl))\<close>, computed from the URL as it was given, whether the cache is
  bypassed or not; the \<^verbatim>\<open>time\<close> parameter is set on the request only.  Each of the
  two downloads leaves the body it received in the file at that path, so the retry
  replaces what the first attempt wrote there.
\<close>

theorem output_path_ignores_bustCache:
  assumes first: "downloadPackage L u dir pc False w = (Inr p1, w1)"
    and retry: "downloadPackage L u dir pc True v = (Inr p2, v')"
  shows "p1 = p2 \<and> p1 = path_Join L dir (path_Base L u)
       \<and> (\<exists>body1. HTTPClient pc (length (requests w)) (requestOf pc u None)
                      = Response 200 body1 False
                  \<and> files w1 p1 = Some body1)
       \<and> (\<exists>body2. HTTPClient pc (length (requests v)) (requestOf pc u (Some (now v)))
                      = Response 200 body2 False
                  \<and> files v' p1 = Some body2)"
  using downloadPackage_Inr(1,3) [OF first] downloadPackage_Inr(1,3) [OF retry]
  by auto

theorem output_path_ignores_bustCache_witness:
  "downloadPackage demoLib demoUrl ''/tmp'' (demoPc pkgOfEmpty serveStale) False demoWorld
     = (Inr ''/tmp/pkg.tgz'',
        demoWorld\<lparr>requests := [requestOf (demoPc pkgOfEmpty serveStale) demoUrl None],
          files := [''/tmp/pkg.tgz'' \<mapsto> [0x61]]\<rparr>)
   \<and> fst (downloadPackage demoLib demoUrl ''/tmp'' (demoPc pkgOfEmpty serveStale) True
          (demoWorld1 (demoPc pkgOfEmpty serveStale) [0x61])) = Inr ''/tmp/pkg.tgz''
   \<and> files (demoWorld1 (demoPc pkgOfEmpty serveStale) [0x61]) ''/tmp/pkg.tgz'' = Some [0x61]
   \<and> files (snd (downloadPackage demoLib demoUrl ''/tmp'' (demoPc pkgOfEmpty serveStale) True
          (demoWorld1 (demoPc pkgOfEmpty serveStale) [0x61]))) ''/tmp/pkg.tgz'' = Some []"
proof -
  let ?pc = "demoPc pkgOfEmpty serveStale"
  have first: "downloadPackage demoLib demoUrl ''/tmp'' ?pc False demoWorld
     = (Inr ''/tmp/pkg.tgz'',
        demoWorld\<lparr>requests := [requestOf ?pc demoUrl None],
          files := [''/tmp/pkg.tgz'' \<mapsto> [0x61]]\<rparr>)"
    by (simp add: demo_download) (simp add: demoPc_def serveStale_def requestOf_def demoWorld_def)
  have retry: "downloadPackage demoLib demoUrl ''/tmp'' ?pc True (demoWorld1 ?pc [0x61])
     = (Inr ''/tmp/pkg.tgz'',
        (demoWorld1 ?pc [0x61])
          \<lparr>requests := [requestOf ?pc demoUrl None, requestOf ?pc demoUrl (Some 1700000000)],
            files := [''/tmp/pkg.tgz'' \<mapsto> []]\<rparr>)"
    by (simp add: demo_download)
       (simp add: demoPc_def serveStale_def requestOf_def demoWorld_def demoWorld1_def)
  show ?thesis
    using output_path_ignores_bustCache [OF first retry] first
    by (simp add: retry) (simp add: demoWorld1_def)
qed

end
